theory Spec2Isabelle
  imports Complex_Main "HOL-Library.Word" "HOL-Library.Char_ord" "HOL-Library.List_Lexorder"
    "HOL-Library.Monad_Syntax"
begin

section \<open>The value system (internal/storage/types.go)\<close>

text \<open>
  Go's \<open>int64\<close> and, on the 64-bit platforms the engine is built for, \<open>int\<close> are
  64-bit two's complement integers: \<open>+\<close> wraps, comparison is signed.
\<close>

type_synonym int64 = "64 word"
type_synonym go_int = "64 word"

text \<open>
  A \<open>float64\<close> is modelled by what Go's comparison operators see of it: a NaN, an
  infinity, the negative zero, or a finite number with its exact rational value
  (\<open>FFin 0\<close> is the positive zero).
\<close>

datatype float64 = FNaN | FPosInf | FNegInf | FNegZero | FFin rat

fun float_key :: "float64 \<Rightarrow> int \<times> rat" where
  "float_key FNegInf = (- 1, 0)"
| "float_key FPosInf = (1, 0)"
| "float_key FNegZero = (0, 0)"
| "float_key (FFin q) = (0, q)"
| "float_key FNaN = (0, 0)"

text \<open>Go's \<open>==\<close> and \<open><\<close> on \<open>float64\<close> (IEEE 754): every comparison with a NaN is false.\<close>

definition float_eq :: "float64 \<Rightarrow> float64 \<Rightarrow> bool" where
  "float_eq a b = (a \<noteq> FNaN \<and> b \<noteq> FNaN \<and> float_key a = float_key b)"

definition float_lt :: "float64 \<Rightarrow> float64 \<Rightarrow> bool" where
  "float_lt a b =
     (a \<noteq> FNaN \<and> b \<noteq> FNaN \<and>
      (fst (float_key a) < fst (float_key b) \<or>
       fst (float_key a) = fst (float_key b) \<and> snd (float_key a) < snd (float_key b)))"

datatype DataType = TypeInteger | TypeFloat | TypeText | TypeBoolean | TypeNull

text \<open>
  The \<open>Value\<close> interface with its five implementations. A Go \<open>string\<close> is a sequence
  of bytes, compared bytewise: an Isabelle \<open>string\<close> with the lexicographic order on
  character codes.
\<close>

datatype Value =
    NullValue
  | IntegerValue int64
  | FloatValue float64
  | TextValue string
  | BooleanValue bool

fun Type :: "Value \<Rightarrow> DataType" where
  "Type NullValue = TypeNull"
| "Type (IntegerValue i) = TypeInteger"
| "Type (FloatValue f) = TypeFloat"
| "Type (TextValue t) = TypeText"
| "Type (BooleanValue b) = TypeBoolean"

fun Equals :: "Value \<Rightarrow> Value \<Rightarrow> bool" where
  "Equals NullValue other = (case other of NullValue \<Rightarrow> True | _ \<Rightarrow> False)"
| "Equals (IntegerValue i) other = (case other of IntegerValue o' \<Rightarrow> i = o' | _ \<Rightarrow> False)"
| "Equals (FloatValue f) other = (case other of FloatValue o' \<Rightarrow> float_eq f o' | _ \<Rightarrow> False)"
| "Equals (TextValue t) other = (case other of TextValue o' \<Rightarrow> t = o' | _ \<Rightarrow> False)"
| "Equals (BooleanValue b) other = (case other of BooleanValue o' \<Rightarrow> b = o' | _ \<Rightarrow> False)"

fun LessThan :: "Value \<Rightarrow> Value \<Rightarrow> bool" where
  "LessThan NullValue other = False"
| "LessThan (IntegerValue i) other = (case other of IntegerValue o' \<Rightarrow> i <s o' | _ \<Rightarrow> False)"
| "LessThan (FloatValue f) other = (case other of FloatValue o' \<Rightarrow> float_lt f o' | _ \<Rightarrow> False)"
| "LessThan (TextValue t) other = (case other of TextValue o' \<Rightarrow> t < o' | _ \<Rightarrow> False)"
| "LessThan (BooleanValue b) other = (case other of BooleanValue o' \<Rightarrow> \<not> b \<and> o' | _ \<Rightarrow> False)"

fun Clone :: "Value \<Rightarrow> Value" where
  "Clone NullValue = NullValue"
| "Clone (IntegerValue i) = IntegerValue i"
| "Clone (FloatValue f) = FloatValue f"
| "Clone (TextValue t) = TextValue t"
| "Clone (BooleanValue b) = BooleanValue b"

lemma Clone_id [simp]: "Clone v = v"
  by (cases v) simp_all

lemma float_lt_irrefl: "\<not> float_lt a a"
  by (simp add: float_lt_def)

lemma float_lt_trans: "float_lt a b \<Longrightarrow> float_lt b c \<Longrightarrow> float_lt a c"
  by (auto simp: float_lt_def)

lemma float_trichotomy:
  "a \<noteq> FNaN \<Longrightarrow> b \<noteq> FNaN \<Longrightarrow> \<not> float_eq a b \<Longrightarrow> float_lt a b \<noteq> float_lt b a"
  by (auto simp: float_lt_def float_eq_def prod_eq_iff)

lemma sless_trichotomy: "x \<noteq> y \<Longrightarrow> (x <s y) \<noteq> (y <s (x::int64))"
proof -
  assume "x \<noteq> y"
  then have "sint x \<noteq> sint y" by (auto dest: signed_word_eqI)
  then show ?thesis by (auto simp: word_sless_alt)
qed


section \<open>Errors and slices\<close>

text \<open>
  Every \<open>fmt.Errorf\<close> of the engine is a constructor. A Go panic (an index out of
  range, a call on a nil interface) ends the program: a function that can panic returns an
  \<open>option\<close>, and \<open>None\<close> is the panic.
\<close>

datatype error =
    IndexOutOfBounds int
  | KeyNotFound
  | ColumnNotFound string
  | IndexExists string
  | IndexNotFound string
  | RowTooLong nat nat
  | TypeMismatch string DataType DataType
  | NotNullViolation string
  | PrimaryKeyViolation Value
  | UniqueViolation Value
  | ForeignKeyViolation error
  | IndexUpdateFailed error
  | CannotUpdatePrimaryKey string
  | RowNotFound int
  | ForeignKeyCountMismatch
  | TableExists string
  | TableNotFound string
  | IndexCreationFailed error
  | NoTableSpecified
  | UnknownTableOrAlias string
  | ColumnNotInTable string string
  | AmbiguousColumn string
  | NoRowContext
  | InvalidFloatLiteral string
  | InvalidIntegerLiteral string
  | UnsupportedBinaryOperator string
  | UnsupportedUnaryOperator string
  | UnaryMinusUnsupported
  | DivisionByZero
  | ArithmeticUnsupported
  | UnsupportedExpression
  | UnsupportedDataType string
  | InvalidColumnType string string error
  | DefaultValueError string error

text \<open>
  Reads and slices of a Go slice, with the bounds check written out. \<open>s[:b]\<close> beyond the
  length would depend on the capacity; at every use below a read of the slice has
  established \<open>b \<le> len(s)\<close> before, or the sibling expression \<open>s[b:]\<close> panics.
\<close>

definition nth_opt :: "'a list \<Rightarrow> nat \<Rightarrow> 'a option" where
  "nth_opt xs i = (if i < length xs then Some (xs ! i) else None)"

definition slice_from :: "'a list \<Rightarrow> nat \<Rightarrow> 'a list option" where
  "slice_from xs a = (if a \<le> length xs then Some (drop a xs) else None)"

definition slice_to :: "'a list \<Rightarrow> nat \<Rightarrow> 'a list option" where
  "slice_to xs b = (if b \<le> length xs then Some (take b xs) else None)"

definition set_at :: "'a list \<Rightarrow> nat \<Rightarrow> 'a \<Rightarrow> 'a list option" where
  "set_at xs i x = (if i < length xs then Some (xs[i := x]) else None)"

text \<open>\<open>append(s[:i], s[i+1:]...)\<close>: the element at \<open>i\<close> removed.\<close>

definition remove_at :: "'a list \<Rightarrow> nat \<Rightarrow> 'a list option" where
  "remove_at xs i = (if i < length xs then Some (take i xs @ drop (Suc i) xs) else None)"

lemma in_set_remove_at: "remove_at xs i = Some ys \<Longrightarrow> c \<in> set ys \<Longrightarrow> c \<in> set xs"
  by (auto simp: remove_at_def split: if_splits dest: in_set_takeD in_set_dropD)

lemma in_set_update: "c \<in> set (xs[i := x]) \<Longrightarrow> c = x \<or> c \<in> set xs"
  using set_update_subset_insert [of xs i x] by auto

lemma in_set_take_update:
  "c \<in> set (take n (xs[i := x])) \<Longrightarrow> c = x \<or> c \<in> set xs"
  using set_update_subset_insert [of xs i x] by (auto dest!: in_set_takeD)

lemma nth_opt_in_set: "nth_opt xs i = Some x \<Longrightarrow> x \<in> set xs"
  by (auto simp: nth_opt_def split: if_splits)


section \<open>The B-tree index (internal/storage/table.go, second file: BTree)\<close>

text \<open>
  A node owns its slices and its children (no node is shared), so the tree of pointers is a
  tree of values, and a method that mutates a node returns the node it leaves behind.
\<close>

datatype bTreeNode =
  Node (keys: "Value list") (children: "bTreeNode list") (isLeaf: bool) (rowPtrs: "go_int list")

text \<open>The depth of the recursion below: the measure of the termination proofs.\<close>

fun height :: "bTreeNode \<Rightarrow> nat" where
  "height (Node ks cs l rp) = Suc (foldr (\<lambda>c m. max (height c) m) cs 0)"

lemma height_child: "c \<in> set cs \<Longrightarrow> height c \<le> foldr (\<lambda>c m. max (height c) m) cs 0"
  by (induction cs) auto

lemma height_children: "c \<in> set (children n) \<Longrightarrow> height c < height n"
  by (cases n) (simp add: height_child less_Suc_eq_le)

lemma height_nth: "i < length (children n) \<Longrightarrow> height (children n ! i) < height n"
  by (simp add: height_children)

text \<open>
  \<open>lookup\<close>: the loop advances \<open>i\<close> while \<open>key.LessThan(node.keys[i])\<close>, that is, past the
  keys the target is less than.
\<close>

function lookup :: "bTreeNode \<Rightarrow> Value \<Rightarrow> (go_int list \<times> bool) option" where
  "lookup node key =
     (let i = length (takeWhile (\<lambda>k. LessThan key k) (keys node)) in
      if i < length (keys node) \<and> Equals key (keys node ! i) then
        do { p \<leftarrow> nth_opt (rowPtrs node) i; Some ([p], True) }
      else if isLeaf node then Some ([], False)
      else if i < length (children node) then lookup (children node ! i) key
      else None)"
  by pat_completeness auto
termination
  by (relation "measure (\<lambda>(n, k). height n)") (auto simp: height_nth)

lemma height_le: "(\<And>c. c \<in> set cs \<Longrightarrow> height c \<le> n) \<Longrightarrow> foldr (\<lambda>c m. max (height c) m) cs 0 \<le> n"
  by (induction cs) auto

lemma height_sub:
  "set cs \<subseteq> set (children t) \<Longrightarrow> height (Node ks cs l rp) \<le> height t"
  by (cases t) (auto intro!: height_le height_child)

text \<open>
  \<open>splitChild\<close>: the middle key moves up to the parent; its row pointer is not copied
  anywhere (\<open>rowPtrs[order-1]\<close> is dropped with the truncation to \<open>[:order-1]\<close>).
\<close>

definition splitChild :: "nat \<Rightarrow> bTreeNode \<Rightarrow> nat \<Rightarrow> bTreeNode option" where
  "splitChild ord parent i =
     (if ord = 0 then None else do {
        t \<leftarrow> nth_opt (children parent) i;
        midKey \<leftarrow> nth_opt (keys t) (ord - 1);
        newKeys \<leftarrow> slice_from (keys t) ord;
        newRowPtrs \<leftarrow> (if isLeaf t then slice_from (rowPtrs t) ord else Some []);
        newChildren \<leftarrow> (if isLeaf t then Some [] else slice_from (children t) ord);
        tKeys \<leftarrow> slice_to (keys t) (ord - 1);
        tRowPtrs \<leftarrow> (if isLeaf t then slice_to (rowPtrs t) (ord - 1) else Some (rowPtrs t));
        tChildren \<leftarrow> (if isLeaf t then Some (children t) else slice_to (children t) ord);
        pkHead \<leftarrow> slice_to (keys parent) i;
        pkTail \<leftarrow> slice_from (keys parent) i;
        pcHead \<leftarrow> slice_to ((children parent)[i := Node tKeys tChildren (isLeaf t) tRowPtrs]) (i + 1);
        pcTail \<leftarrow> slice_from (children parent) (i + 1);
        Some (Node (pkHead @ midKey # pkTail)
                   (pcHead @ Node newKeys newChildren (isLeaf t) newRowPtrs # pcTail)
                   (isLeaf parent) (rowPtrs parent))
      })"

lemma height_part:
  "i < length (children p) \<Longrightarrow> set cs \<subseteq> set (children (children p ! i)) \<Longrightarrow>
   height (Node ks cs l rp) < height p"
  using height_sub [of cs "children p ! i" ks l rp] height_nth [of i p] by simp

lemma splitChild_height:
  assumes "splitChild ord parent i = Some p'" and "c \<in> set (children p')"
  shows "height c < height parent"
  using assms
  by (auto simp: splitChild_def nth_opt_def slice_from_def slice_to_def height_children
      split: if_splits Option.bind_splits
      dest!: in_set_take_update in_set_dropD
      intro!: height_part set_take_subset set_drop_subset)

text \<open>
  \<open>insertNonFull\<close>, the leaf loop: with \<open>j = i + 1\<close>, shift keys and row pointers to
  the right while the key is less than \<open>keys[i]\<close>. The slot appended to \<open>keys\<close> (Go's nil)
  is overwritten before it is read.
\<close>

primrec leaf_shift :: "Value \<Rightarrow> nat \<Rightarrow> Value list \<Rightarrow> go_int list \<Rightarrow> (Value list \<times> go_int list \<times> nat) option" where
  "leaf_shift key 0 ks rps = Some (ks, rps, 0)"
| "leaf_shift key (Suc i) ks rps =
     (if LessThan key (ks ! i) then
        (if Suc i < length rps then leaf_shift key i (ks[Suc i := ks ! i]) (rps[Suc i := rps ! i])
         else None)
      else Some (ks, rps, Suc i))"

text \<open>The loop of an internal node; the result is \<open>i\<close> after the final \<open>i++\<close>.\<close>

primrec descend :: "Value \<Rightarrow> Value list \<Rightarrow> nat \<Rightarrow> nat" where
  "descend key ks 0 = 0"
| "descend key ks (Suc i) = (if LessThan key (ks ! i) then descend key ks i else Suc i)"

function insertNonFull :: "nat \<Rightarrow> bTreeNode \<Rightarrow> Value \<Rightarrow> go_int \<Rightarrow> bTreeNode option" where
  "insertNonFull ord node key rowPtr =
     (if isLeaf node then
        (case leaf_shift key (length (keys node)) (keys node @ [NullValue]) (rowPtrs node @ [0]) of
           None \<Rightarrow> None
         | Some (ks, rps, j) \<Rightarrow>
             (case set_at rps j rowPtr of
                None \<Rightarrow> None
              | Some rps' \<Rightarrow> Some (Node (ks[j := key]) (children node) (isLeaf node) rps')))
      else
        (let i = descend key (keys node) (length (keys node)) in
         case nth_opt (children node) i of
           None \<Rightarrow> None
         | Some c \<Rightarrow>
             if 2 * ord - 1 \<le> length (keys c) then
               (case splitChild ord node i of
                  None \<Rightarrow> None
                | Some node' \<Rightarrow>
                    (case nth_opt (keys node') i of
                       None \<Rightarrow> None
                     | Some k \<Rightarrow>
                         if Equals key k then Some node'
                         else
                           (let i' = (if LessThan key k then i + 1 else i) in
                            if i' < length (children node') then
                              (case insertNonFull ord (children node' ! i') key rowPtr of
                                 None \<Rightarrow> None
                               | Some c' \<Rightarrow>
                                   Some (Node (keys node') ((children node')[i' := c'])
                                           (isLeaf node') (rowPtrs node')))
                            else None)))
             else
               (case insertNonFull ord c key rowPtr of
                  None \<Rightarrow> None
                | Some c' \<Rightarrow>
                    Some (Node (keys node) ((children node)[i := c']) (isLeaf node) (rowPtrs node)))))"
  by pat_completeness auto
termination
proof (relation "measure (\<lambda>(ord, n, k, p). height n)", goal_cases)
  case 1
  show ?case by simp
next
  case (2 ord node key rowPtr i c node' k i')
  then show ?case by (auto intro: splitChild_height)
next
  case (3 ord node key rowPtr i c)
  then show ?case by (auto simp: nth_opt_def height_nth split: if_splits)
qed

text \<open>
  The tree. \<open>Insert\<close> returns an \<open>error\<close> that is always nil; \<open>Delete\<close> reports a key
  that \<open>containsKey\<close> does not find. \<open>Range\<close>, \<open>Count\<close> and \<open>Dump\<close> are not modelled.
\<close>

record BTree =
  bt_root :: "bTreeNode option"
  bt_order :: nat

definition defaultOrder :: nat where
  "defaultOrder = 4"

definition NewBTree :: BTree where
  "NewBTree = \<lparr>bt_root = Some (Node [] [] True []), bt_order = defaultOrder\<rparr>"

definition BTree_Insert :: "BTree \<Rightarrow> Value \<Rightarrow> go_int \<Rightarrow> (BTree \<times> error option) option" where
  "BTree_Insert bt key rowPtr =
     (case bt_root bt of
        None \<Rightarrow> Some (bt\<lparr>bt_root := Some (Node [key] [] True [rowPtr])\<rparr>, None)
      | Some r \<Rightarrow>
          if 2 * bt_order bt - 1 \<le> length (keys r) then do {
            newRoot \<leftarrow> splitChild (bt_order bt) (Node [] [r] False []) 0;
            newRoot' \<leftarrow> insertNonFull (bt_order bt) newRoot key rowPtr;
            Some (bt\<lparr>bt_root := Some newRoot'\<rparr>, None)
          } else do {
            r' \<leftarrow> insertNonFull (bt_order bt) r key rowPtr;
            Some (bt\<lparr>bt_root := Some r'\<rparr>, None)
          })"


definition BTree_Lookup :: "BTree \<Rightarrow> Value \<Rightarrow> (go_int list \<times> bool) option" where
  "BTree_Lookup bt key = (case bt_root bt of None \<Rightarrow> Some ([], False) | Some r \<Rightarrow> lookup r key)"

text \<open>\<open>scan\<close> appends \<open>node.rowPtrs[i]\<close> for every key of every node, leaf or not.\<close>

function scan :: "bTreeNode \<Rightarrow> go_int list option" where
  "scan node = do {
     parts \<leftarrow> those (map (\<lambda>i. do {
         sub \<leftarrow> (if isLeaf node then Some []
                 else case nth_opt (children node) i of None \<Rightarrow> None | Some c \<Rightarrow> scan c);
         p \<leftarrow> nth_opt (rowPtrs node) i;
         Some (sub @ [p]) }) [0..<length (keys node)]);
     rest \<leftarrow> (if isLeaf node then Some []
              else case nth_opt (children node) (length (keys node)) of
                     None \<Rightarrow> None | Some c \<Rightarrow> scan c);
     Some (concat parts @ rest) }"
  by pat_completeness auto
termination
  by (relation "measure height") (auto simp: nth_opt_def height_nth split: if_splits)

definition BTree_ScanAll :: "BTree \<Rightarrow> go_int list option" where
  "BTree_ScanAll bt = (case bt_root bt of None \<Rightarrow> Some [] | Some r \<Rightarrow> scan r)"

function containsKey :: "bTreeNode \<Rightarrow> Value \<Rightarrow> bool option" where
  "containsKey node key =
     (let i = length (takeWhile (\<lambda>k. LessThan key k) (keys node)) in
      if i < length (keys node) \<and> Equals key (keys node ! i) then Some True
      else if isLeaf node then Some False
      else case nth_opt (children node) i of None \<Rightarrow> None | Some c \<Rightarrow> containsKey c key)"
  by pat_completeness auto
termination
  by (relation "measure (\<lambda>(n, k). height n)") (auto simp: nth_opt_def height_nth split: if_splits)

text \<open>\<open>findKey\<close>: the first index whose key the target is less than.\<close>

definition findKey :: "bTreeNode \<Rightarrow> Value \<Rightarrow> nat" where
  "findKey node key = length (takeWhile (\<lambda>k. \<not> LessThan key k) (keys node))"

definition removeFromLeaf :: "bTreeNode \<Rightarrow> nat \<Rightarrow> bTreeNode option" where
  "removeFromLeaf node idx = do {
     ks \<leftarrow> remove_at (keys node) idx;
     rps \<leftarrow> remove_at (rowPtrs node) idx;
     Some (Node ks (children node) (isLeaf node) rps) }"

text \<open>The loops of \<open>getPredecessor\<close> and \<open>getSuccessor\<close>, from the child they start at.\<close>

function rightmost_key :: "bTreeNode \<Rightarrow> Value option" where
  "rightmost_key cur =
     (if isLeaf cur then (if keys cur = [] then None else Some (last (keys cur)))
      else case nth_opt (children cur) (length (keys cur)) of
             None \<Rightarrow> None | Some c \<Rightarrow> rightmost_key c)"
  by pat_completeness auto
termination
  by (relation "measure height") (auto simp: nth_opt_def height_nth split: if_splits)

function leftmost_key :: "bTreeNode \<Rightarrow> Value option" where
  "leftmost_key cur =
     (if isLeaf cur then nth_opt (keys cur) 0
      else case nth_opt (children cur) 0 of None \<Rightarrow> None | Some c \<Rightarrow> leftmost_key c)"
  by pat_completeness auto
termination
  by (relation "measure height") (auto simp: nth_opt_def height_nth split: if_splits)

definition getPredecessor :: "bTreeNode \<Rightarrow> nat \<Rightarrow> Value option" where
  "getPredecessor node idx = do { c \<leftarrow> nth_opt (children node) idx; rightmost_key c }"

definition getSuccessor :: "bTreeNode \<Rightarrow> nat \<Rightarrow> Value option" where
  "getSuccessor node idx = do { c \<leftarrow> nth_opt (children node) (idx + 1); leftmost_key c }"

definition merge :: "bTreeNode \<Rightarrow> nat \<Rightarrow> bTreeNode option" where
  "merge node idx = do {
     child \<leftarrow> nth_opt (children node) idx;
     sibling \<leftarrow> nth_opt (children node) (idx + 1);
     k \<leftarrow> nth_opt (keys node) idx;
     ks \<leftarrow> remove_at (keys node) idx;
     cs \<leftarrow> remove_at ((children node)[idx :=
             Node (keys child @ k # keys sibling)
                  (if isLeaf child then children child else children child @ children sibling)
                  (isLeaf child)
                  (rowPtrs child @ rowPtrs sibling)]) (idx + 1);
     Some (Node ks cs (isLeaf node) (rowPtrs node)) }"

text \<open>
  \<open>borrowFromPrev\<close> prepends the child's own first row pointer, \<open>child.rowPtrs[0]\<close>, and
  drops the sibling's last one.
\<close>

definition borrowFromPrev :: "bTreeNode \<Rightarrow> nat \<Rightarrow> bTreeNode option" where
  "borrowFromPrev node idx =
     (if idx = 0 then None else do {
        child \<leftarrow> nth_opt (children node) idx;
        sibling \<leftarrow> nth_opt (children node) (idx - 1);
        k \<leftarrow> nth_opt (keys node) (idx - 1);
        p \<leftarrow> nth_opt (rowPtrs child) 0;
        moved \<leftarrow> (if isLeaf child then Some []
                  else if children sibling = [] then None else Some [last (children sibling)]);
        up \<leftarrow> (if keys sibling = [] then None else Some (last (keys sibling)));
        srps \<leftarrow> (if rowPtrs sibling = [] then None else Some (butlast (rowPtrs sibling)));
        Some (Node ((keys node)[idx - 1 := up])
                ((children node)
                   [idx := Node (k # keys child) (moved @ children child) (isLeaf child)
                             (p # rowPtrs child),
                    idx - 1 := Node (butlast (keys sibling))
                             (if isLeaf child then children sibling else butlast (children sibling))
                             (isLeaf sibling) srps])
                (isLeaf node) (rowPtrs node)) })"

definition borrowFromNext :: "bTreeNode \<Rightarrow> nat \<Rightarrow> bTreeNode option" where
  "borrowFromNext node idx = do {
     child \<leftarrow> nth_opt (children node) idx;
     sibling \<leftarrow> nth_opt (children node) (idx + 1);
     k \<leftarrow> nth_opt (keys node) idx;
     p \<leftarrow> nth_opt (rowPtrs sibling) 0;
     moved \<leftarrow> (if isLeaf child then Some []
               else case children sibling of [] \<Rightarrow> None | c # _ \<Rightarrow> Some [c]);
     up \<leftarrow> nth_opt (keys sibling) 0;
     Some (Node ((keys node)[idx := up])
             ((children node)
                [idx := Node (keys child @ [k]) (children child @ moved) (isLeaf child)
                          (rowPtrs child @ [p]),
                 idx + 1 := Node (tl (keys sibling))
                          (if isLeaf child then children sibling else tl (children sibling))
                          (isLeaf sibling) (tl (rowPtrs sibling))])
             (isLeaf node) (rowPtrs node)) }"

definition fill :: "nat \<Rightarrow> bTreeNode \<Rightarrow> nat \<Rightarrow> bTreeNode option" where
  "fill ord node idx = do {
     prevHas \<leftarrow> (if idx \<noteq> 0 then do { s \<leftarrow> nth_opt (children node) (idx - 1);
                                          Some (ord \<le> length (keys s)) }
                  else Some False);
     if prevHas then borrowFromPrev node idx
     else do {
       nextHas \<leftarrow> (if idx \<noteq> length (keys node) then do { s \<leftarrow> nth_opt (children node) (idx + 1);
                                                         Some (ord \<le> length (keys s)) }
                    else Some False);
       if nextHas then borrowFromNext node idx
       else if idx \<noteq> length (keys node) then merge node idx
       else if idx = 0 then None
       else merge node (idx - 1) } }"

lemma height_grand:
  assumes "d \<in> set (children p)"
    and "\<And>c. c \<in> set cs \<Longrightarrow> \<exists>d\<in>set (children p). c \<in> set (children d)"
  shows "height (Node ks cs l rp) < height p"
proof -
  have "height c + 2 \<le> height p" if "c \<in> set cs" for c
  proof -
    from assms(2) [OF that] obtain d' where "d' \<in> set (children p)" "c \<in> set (children d')"
      by blast
    then show ?thesis using height_children [of c d'] height_children [of d' p] by simp
  qed
  then have "foldr (\<lambda>c m. max (height c) m) cs 0 \<le> height p - 2"
    by (intro height_le) fastforce
  moreover have "2 \<le> height p"
    using height_children [OF assms(1)] by (cases d) simp
  ultimately show ?thesis by simp
qed

declare height.simps [simp del]

lemma height_grand2:
  assumes "nth_opt (children p) i = Some a" and "nth_opt (children p) j = Some b"
    and "set cs \<subseteq> set (children a) \<union> set (children b)"
  shows "height (Node ks cs l rp) < height p"
  by (rule height_grand [OF nth_opt_in_set [OF assms(1)]])
     (use assms in \<open>auto dest: nth_opt_in_set\<close>)

lemma set_butlast_subset: "set (butlast xs) \<subseteq> set xs"
  by (auto dest: in_set_butlastD)

lemma set_tl_subset: "set (tl xs) \<subseteq> set xs"
  by (cases xs) auto

lemma merge_height:
  assumes "merge node idx = Some n'" and "c \<in> set (children n')"
  shows "height c < height node"
  using assms
  apply (clarsimp simp: merge_def split: Option.bind_splits)
  apply (drule (1) in_set_remove_at)
  apply (drule in_set_update)
  apply (erule disjE)
   apply (clarsimp split: if_splits)
    apply (rule height_grand2, assumption, assumption, force)+
  apply (simp add: height_children)
  done

lemma borrowFromPrev_height:
  assumes "borrowFromPrev node idx = Some n'" and "c \<in> set (children n')"
  shows "height c < height node"
  using assms set_butlast_subset [of "children x" for x]
  apply (auto simp: borrowFromPrev_def height_children split: Option.bind_splits if_splits
      dest!: in_set_update)
     apply (rule height_grand2, assumption, assumption, force dest: in_set_butlastD)+
  done

lemma borrowFromNext_height:
  assumes "borrowFromNext node idx = Some n'" and "c \<in> set (children n')"
  shows "height c < height node"
  using assms
  apply (auto simp: borrowFromNext_def height_children split: Option.bind_splits if_splits list.splits
      dest!: in_set_update)
     apply (rule height_grand2, assumption, assumption, force)+
  done

lemma fill_height:
  "fill ord node idx = Some n' \<Longrightarrow> c \<in> set (children n') \<Longrightarrow> height c < height node"
  by (auto simp: fill_def split: Option.bind_splits if_splits
      intro: merge_height borrowFromPrev_height borrowFromNext_height)

text \<open>
  \<open>deleteKey\<close> and \<open>removeFromInternal\<close>. \<open>flag\<close> is read before \<open>fill\<close>, the length of
  \<open>node.keys\<close> after it.
\<close>

function deleteKey :: "nat \<Rightarrow> bTreeNode \<Rightarrow> Value \<Rightarrow> (bTreeNode \<times> bool) option"
  and removeFromInternal :: "nat \<Rightarrow> bTreeNode \<Rightarrow> nat \<Rightarrow> bTreeNode option" where
  "deleteKey ord node key =
     (let idx = findKey node key in
      if idx < length (keys node) \<and> Equals key (keys node ! idx) then
        (if isLeaf node then
           (case removeFromLeaf node idx of None \<Rightarrow> None | Some n \<Rightarrow> Some (n, True))
         else
           (case removeFromInternal ord node idx of None \<Rightarrow> None | Some n \<Rightarrow> Some (n, True)))
      else if isLeaf node then Some (node, False)
      else
        (case nth_opt (children node) idx of
           None \<Rightarrow> None
         | Some c \<Rightarrow>
             (case (if length (keys c) < ord then fill ord node idx else Some node) of
                None \<Rightarrow> None
              | Some node' \<Rightarrow>
                  (let j = (if idx = length (keys node) \<and> length (keys node') < idx
                            then idx - 1 else idx) in
                   if j < length (children node') then
                     (case deleteKey ord (children node' ! j) key of
                        None \<Rightarrow> None
                      | Some (c', r) \<Rightarrow>
                          Some (Node (keys node') ((children node')[j := c'])
                                  (isLeaf node') (rowPtrs node'), r))
                   else None))))"
| "removeFromInternal ord node idx =
     (case nth_opt (keys node) idx of
        None \<Rightarrow> None
      | Some key \<Rightarrow>
          (case nth_opt (children node) idx of
             None \<Rightarrow> None
           | Some c \<Rightarrow>
               if ord \<le> length (keys c) then
                 (case getPredecessor node idx of
                    None \<Rightarrow> None
                  | Some pred \<Rightarrow>
                      (case deleteKey ord c pred of
                         None \<Rightarrow> None
                       | Some (c', r) \<Rightarrow>
                           Some (Node ((keys node)[idx := pred]) ((children node)[idx := c'])
                                   (isLeaf node) (rowPtrs node))))
               else
                 (case nth_opt (children node) (idx + 1) of
                    None \<Rightarrow> None
                  | Some c2 \<Rightarrow>
                      if ord \<le> length (keys c2) then
                        (case getSuccessor node idx of
                           None \<Rightarrow> None
                         | Some succ \<Rightarrow>
                             (case deleteKey ord c2 succ of
                                None \<Rightarrow> None
                              | Some (c2', r) \<Rightarrow>
                                  Some (Node ((keys node)[idx := succ])
                                          ((children node)[idx + 1 := c2'])
                                          (isLeaf node) (rowPtrs node))))
                      else
                        (case merge node idx of
                           None \<Rightarrow> None
                         | Some node' \<Rightarrow>
                             if idx < length (children node') then
                               (case deleteKey ord (children node' ! idx) key of
                                  None \<Rightarrow> None
                                | Some (c', r) \<Rightarrow>
                                    Some (Node (keys node') ((children node')[idx := c'])
                                            (isLeaf node') (rowPtrs node')))
                             else None))))"
  by pat_completeness auto
termination
proof (relation "measure (\<lambda>x. case x of Inl (ord, n, k) \<Rightarrow> 2 * height n + 1
                                        | Inr (ord, n, i) \<Rightarrow> 2 * height n)", goal_cases)
  case 1
  show ?case by simp
next
  case 2
  then show ?case by simp
next
  case (3 ord node key idx c node' j)
  then have "height (children node' ! j) < height node"
    by (auto split: if_splits intro: fill_height simp: height_nth)
  then show ?case by simp
next
  case (4 ord node idx key c pred)
  then have "height c < height node" by (auto dest: nth_opt_in_set intro: height_children)
  then show ?case by simp
next
  case (5 ord node idx key c c2 succ)
  then have "height c2 < height node" by (auto dest: nth_opt_in_set intro: height_children)
  then show ?case by simp
next
  case (6 ord node idx key c c2 node')
  then have "height (children node' ! idx) < height node"
    by (auto intro: merge_height)
  then show ?case by simp
qed

definition BTree_Delete :: "BTree \<Rightarrow> Value \<Rightarrow> (BTree \<times> error option) option" where
  "BTree_Delete bt key =
     (case bt_root bt of
        None \<Rightarrow> Some (bt, Some KeyNotFound)
      | Some r \<Rightarrow> do {
          found \<leftarrow> containsKey r key;
          if \<not> found then Some (bt, Some KeyNotFound)
          else do {
            (r', deleted) \<leftarrow> deleteKey (bt_order bt) r key;
            if keys r' = [] \<and> \<not> isLeaf r' then do {
              c \<leftarrow> nth_opt (children r') 0;
              Some (bt\<lparr>bt_root := Some c\<rparr>, None) }
            else Some (bt\<lparr>bt_root := Some r'\<rparr>, None) } })"


subsection \<open>Sequences of insertions and deletions\<close>

text \<open>
  \<open>insert_keys\<close> calls \<open>Insert(key, key)\<close> for each key of a list in turn, \<open>delete_keys\<close>
  calls \<open>Delete(key)\<close>; the error results are dropped, a panic ends the sequence.
\<close>

fun insert_keys :: "BTree \<Rightarrow> nat list \<Rightarrow> BTree option" where
  "insert_keys bt [] = Some bt"
| "insert_keys bt (n # ns) =
     (case BTree_Insert bt (IntegerValue (of_nat n)) (of_nat n) of
        None \<Rightarrow> None
      | Some (bt', e) \<Rightarrow> insert_keys bt' ns)"

fun delete_keys :: "BTree \<Rightarrow> nat list \<Rightarrow> BTree option" where
  "delete_keys bt [] = Some bt"
| "delete_keys bt (n # ns) =
     (case BTree_Delete bt (IntegerValue (of_nat n)) of
        None \<Rightarrow> None
      | Some (bt', e) \<Rightarrow> delete_keys bt' ns)"


section \<open>Schemas, rows and tables (internal/storage/types.go, table.go)\<close>

record Column =
  Col_Name :: string
  Col_Type :: DataType
  PrimaryKey :: bool
  Unique :: bool
  NotNull :: bool
  Default :: "Value option"

definition NewColumn :: "string \<Rightarrow> DataType \<Rightarrow> bool \<Rightarrow> bool \<Rightarrow> bool \<Rightarrow> Column" where
  "NewColumn name dataType primaryKey unique notNull =
     \<lparr>Col_Name = name, Col_Type = dataType, PrimaryKey = primaryKey, Unique = unique,
      NotNull = notNull, Default = None\<rparr>"

record Schema =
  Columns :: "Column list"

text \<open>The index of the first element that satisfies \<open>P\<close>, counted from \<open>i\<close>; \<open>-1\<close> if none.\<close>

fun first_index :: "('a \<Rightarrow> bool) \<Rightarrow> 'a list \<Rightarrow> nat \<Rightarrow> int" where
  "first_index P [] i = - 1"
| "first_index P (x # xs) i = (if P x then int i else first_index P xs (Suc i))"

definition GetColumn :: "Schema \<Rightarrow> string \<Rightarrow> Column option" where
  "GetColumn s name = find (\<lambda>col. Col_Name col = name) (Columns s)"

definition ColumnIndex :: "Schema \<Rightarrow> string \<Rightarrow> int" where
  "ColumnIndex s name = first_index (\<lambda>col. Col_Name col = name) (Columns s) 0"

text \<open>
  A \<open>Row\<close> is its slice of values. \<open>Get\<close> and \<open>Set\<close> return an error out of range
  (\<open>None\<close> here: there is one error); callers that drop the error go on with a nil value.
\<close>

type_synonym Row = "Value list"

definition Row_Get :: "Row \<Rightarrow> int \<Rightarrow> Value option" where
  "Row_Get r index = (if index < 0 \<or> int (length r) \<le> index then None else Some (r ! nat index))"

definition Row_Set :: "Row \<Rightarrow> int \<Rightarrow> Value \<Rightarrow> Row option" where
  "Row_Set r index v =
     (if index < 0 \<or> int (length r) \<le> index then None else Some (r[nat index := v]))"

definition Row_Clone :: "Row \<Rightarrow> Row" where
  "Row_Clone r = map Clone r"

text \<open>\<open>v.Equals(w)\<close> where \<open>w\<close> may be nil: every type assertion on nil fails.\<close>

definition Equals_nil :: "Value \<Rightarrow> Value option \<Rightarrow> bool" where
  "Equals_nil v w = (case w of None \<Rightarrow> False | Some w' \<Rightarrow> Equals v w')"

record ForeignKey =
  FK_Columns :: "string list"
  RefTable :: string
  RefColumns :: "string list"
  OnDelete :: string
  OnUpdate :: string

text \<open>
  \<open>Indexes\<close> is a Go map from column name to index. The loops over it update each index
  on its own, so the order of iteration shows in no result; the model keeps the entries in
  the order they were added.
\<close>

record Table =
  Name :: string
  Schema :: Schema
  Rows :: "Row list"
  Indexes :: "(string \<times> BTree) list"
  RowIDSeq :: go_int
  ForeignKeys :: "ForeignKey list"

definition NewTable :: "string \<Rightarrow> Schema \<Rightarrow> Table" where
  "NewTable name schema =
     \<lparr>Name = name, Schema = schema, Rows = [], Indexes = [], RowIDSeq = 1, ForeignKeys = []\<rparr>"

definition NewIndex :: BTree where
  "NewIndex = NewBTree"

subsection \<open>Table.AddIndex, Table.RemoveIndex\<close>

fun backfill :: "BTree \<Rightarrow> int \<Rightarrow> Row list \<Rightarrow> nat \<Rightarrow> BTree option" where
  "backfill index colIndex [] rowID = Some index"
| "backfill index colIndex (row # rows) rowID =
     (case Row_Get row colIndex of
        None \<Rightarrow> backfill index colIndex rows (Suc rowID)
      | Some val \<Rightarrow>
          (case BTree_Insert index val (of_nat rowID) of
             None \<Rightarrow> None
           | Some (index', err) \<Rightarrow> backfill index' colIndex rows (Suc rowID)))"

definition Table_AddIndex :: "Table \<Rightarrow> string \<Rightarrow> (Table \<times> error option) option" where
  "Table_AddIndex t columnName =
     (if GetColumn (Schema t) columnName = None then Some (t, Some (ColumnNotFound columnName))
      else if map_of (Indexes t) columnName \<noteq> None then Some (t, Some (IndexExists columnName))
      else
        (case backfill NewIndex (ColumnIndex (Schema t) columnName) (Rows t) 0 of
           None \<Rightarrow> None
         | Some index \<Rightarrow> Some (t\<lparr>Indexes := Indexes t @ [(columnName, index)]\<rparr>, None)))"

definition Table_RemoveIndex :: "Table \<Rightarrow> string \<Rightarrow> Table \<times> error option" where
  "Table_RemoveIndex t columnName =
     (if map_of (Indexes t) columnName = None then (t, Some (IndexNotFound columnName))
      else (t\<lparr>Indexes := filter (\<lambda>(n, i). n \<noteq> columnName) (Indexes t)\<rparr>, None))"

subsection \<open>Table.Insert\<close>

text \<open>Whether a row of the table holds, at \<open>colIndex\<close>, a value that \<open>val\<close> equals.\<close>

definition duplicate_in :: "Row list \<Rightarrow> int \<Rightarrow> Value \<Rightarrow> bool" where
  "duplicate_in rows colIndex val = list_ex (\<lambda>existingRow. Equals_nil val (Row_Get existingRow colIndex)) rows"

text \<open>\<open>if intVal.Value >= int64(t.RowIDSeq) { t.RowIDSeq = int(intVal.Value) }\<close>\<close>

definition raise_seq :: "go_int \<Rightarrow> Value option \<Rightarrow> go_int" where
  "raise_seq seq val =
     (case val of Some (IntegerValue v) \<Rightarrow> if seq \<le>s v then v else seq | _ \<Rightarrow> seq)"

text \<open>
  The body of the loop over the columns: \<open>Some\<close> is a return with that error (and the
  table it leaves), \<open>None\<close> is the next iteration.
\<close>

definition check_column :: "Table \<Rightarrow> Row \<Rightarrow> nat \<Rightarrow> Column \<Rightarrow> (Table \<times> error) option" where
  "check_column t row i col =
     (if length row \<le> i then None
      else
        (let val = row ! i in
         if Type val \<noteq> Col_Type col \<and> Type val \<noteq> TypeNull then
           Some (t, TypeMismatch (Col_Name col) (Col_Type col) (Type val))
         else if NotNull col \<and> Type val = TypeNull \<and> \<not> PrimaryKey col then
           Some (t, NotNullViolation (Col_Name col))
         else if PrimaryKey col \<and> Type val \<noteq> TypeNull \<and>
                 duplicate_in (Rows t) (ColumnIndex (Schema t) (Col_Name col)) val then
           Some (t\<lparr>RowIDSeq := raise_seq (RowIDSeq t) (Some val)\<rparr>, PrimaryKeyViolation val)
         else if Unique col \<and> Type val \<noteq> TypeNull \<and>
                 duplicate_in (Rows t) (ColumnIndex (Schema t) (Col_Name col)) val then
           Some (t, UniqueViolation val)
         else None))"

fun check_columns :: "Table \<Rightarrow> Row \<Rightarrow> Column list \<Rightarrow> nat \<Rightarrow> (Table \<times> error) option" where
  "check_columns t row [] i = None"
| "check_columns t row (col # cols) i =
     (case check_column t row i col of
        Some r \<Rightarrow> Some r
      | None \<Rightarrow> check_columns t row cols (Suc i))"

fun checkForeignKey_cols :: "Schema \<Rightarrow> Row \<Rightarrow> string list \<Rightarrow> error option" where
  "checkForeignKey_cols s row [] = None"
| "checkForeignKey_cols s row (colName # cols) =
     (case Row_Get row (ColumnIndex s colName) of
        None \<Rightarrow> Some (IndexOutOfBounds (ColumnIndex s colName))
      | Some val \<Rightarrow> checkForeignKey_cols s row cols)"

definition checkForeignKey :: "Table \<Rightarrow> Row \<Rightarrow> ForeignKey \<Rightarrow> error option" where
  "checkForeignKey t row fk = checkForeignKey_cols (Schema t) row (FK_Columns fk)"

fun check_foreign_keys :: "Table \<Rightarrow> Row \<Rightarrow> ForeignKey list \<Rightarrow> error option" where
  "check_foreign_keys t row [] = None"
| "check_foreign_keys t row (fk # fks) =
     (case checkForeignKey t row fk of
        Some err \<Rightarrow> Some (ForeignKeyViolation err)
      | None \<Rightarrow> check_foreign_keys t row fks)"

text \<open>
  The slots appended to a row shorter than the schema. A slot at \<open>pkColIndex\<close> with no
  default would stay nil (\<open>None\<close>); the row was extended past \<open>pkColIndex\<close> before, so the
  loop never reaches it.
\<close>

definition fill_slot :: "Schema \<Rightarrow> int \<Rightarrow> nat \<Rightarrow> Value option" where
  "fill_slot s pkColIndex i =
     (case Default (Columns s ! i) of
        Some d \<Rightarrow> Some (Clone d)
      | None \<Rightarrow> if int i \<noteq> pkColIndex then Some NullValue else None)"

definition final_row :: "Schema \<Rightarrow> int \<Rightarrow> Row \<Rightarrow> Row option" where
  "final_row s pkColIndex row =
     (if length row < length (Columns s) then
        (case those (map (fill_slot s pkColIndex) [length row..<length (Columns s)]) of
           None \<Rightarrow> None
         | Some filled \<Rightarrow> Some (row @ filled))
      else Some row)"

text \<open>
  The loop over the indexes: the second component is the error of the first
  \<open>index.Insert\<close> that fails, with the indexes as the loop leaves them.
\<close>

fun insert_into_indexes ::
  "Schema \<Rightarrow> Row \<Rightarrow> go_int \<Rightarrow> (string \<times> BTree) list \<Rightarrow> ((string \<times> BTree) list \<times> error option) option" where
  "insert_into_indexes s finalRow rowID [] = Some ([], None)"
| "insert_into_indexes s finalRow rowID ((colName, index) # rest) =
     (case Row_Get finalRow (ColumnIndex s colName) of
        Some val \<Rightarrow>
          if Type val \<noteq> TypeNull then
            (case BTree_Insert index val rowID of
               None \<Rightarrow> None
             | Some (index', Some err) \<Rightarrow> Some ((colName, index') # rest, Some err)
             | Some (index', None) \<Rightarrow>
                 (case insert_into_indexes s finalRow rowID rest of
                    None \<Rightarrow> None
                  | Some (rest', e) \<Rightarrow> Some ((colName, index') # rest', e)))
          else
            (case insert_into_indexes s finalRow rowID rest of
               None \<Rightarrow> None
             | Some (rest', e) \<Rightarrow> Some ((colName, index) # rest', e))
      | None \<Rightarrow>
          (case insert_into_indexes s finalRow rowID rest of
             None \<Rightarrow> None
           | Some (rest', e) \<Rightarrow> Some ((colName, index) # rest', e)))"

definition pkColIndex :: "Schema \<Rightarrow> int" where
  "pkColIndex s = first_index PrimaryKey (Columns s) 0"

definition isPKNull :: "Schema \<Rightarrow> Row \<Rightarrow> bool" where
  "isPKNull s row =
     (pkColIndex s \<noteq> - 1 \<and>
      (if pkColIndex s < int (length row) then
         (case Row_Get row (pkColIndex s) of Some val \<Rightarrow> Type val = TypeNull | None \<Rightarrow> False)
       else True))"

text \<open>The row with the next sequence value in its primary-key slot, extended to reach it.\<close>

definition assign_pk :: "Table \<Rightarrow> Row \<Rightarrow> Row" where
  "assign_pk t row =
     (if isPKNull (Schema t) row then
        (let k = nat (pkColIndex (Schema t));
             row' = (if length row \<le> k then row @ replicate (k + 1 - length row) NullValue
                     else row)
         in row'[k := IntegerValue (RowIDSeq t)])
      else row)"

definition Table_Insert :: "Table \<Rightarrow> Row \<Rightarrow> (Table \<times> (error + go_int)) option" where
  "Table_Insert t row0 =
     (let s = Schema t;
          row = assign_pk t row0
      in
      if length (Columns s) < length row then
        Some (t, Inl (RowTooLong (length row) (length (Columns s))))
      else
        (case check_columns t row (Columns s) 0 of
           Some (t', err) \<Rightarrow> Some (t', Inl err)
         | None \<Rightarrow>
        (case check_foreign_keys t row (ForeignKeys t) of
           Some err \<Rightarrow> Some (t, Inl err)
         | None \<Rightarrow>
        (case final_row s (pkColIndex s) row of
           None \<Rightarrow> None
         | Some finalRow \<Rightarrow>
             (let seq = (if pkColIndex s \<noteq> - 1
                         then raise_seq (RowIDSeq t) (Row_Get finalRow (pkColIndex s))
                         else RowIDSeq t);
                  rowIDToReturn = (if isPKNull s row0 then seq else seq - 1)
              in
              (case insert_into_indexes s finalRow rowIDToReturn (Indexes t) of
                 None \<Rightarrow> None
               | Some (indexes, Some err) \<Rightarrow>
                   Some (t\<lparr>Rows := butlast (Rows t @ [finalRow]), Indexes := indexes,
                            RowIDSeq := seq + 1 - 1\<rparr>, Inl (IndexUpdateFailed err))
               | Some (indexes, None) \<Rightarrow>
                   Some (t\<lparr>Rows := Rows t @ [finalRow], Indexes := indexes,
                            RowIDSeq := seq + 1\<rparr>, Inr rowIDToReturn)))))))"

subsection \<open>Table.Select, Table.GetRow, Table.Count\<close>

text \<open>A nil predicate matches every row.\<close>

definition matches :: "(Row \<Rightarrow> bool) option \<Rightarrow> Row \<Rightarrow> bool" where
  "matches predicate row = (case predicate of None \<Rightarrow> True | Some p \<Rightarrow> p row)"

definition Table_Select :: "Table \<Rightarrow> (Row \<Rightarrow> bool) option \<Rightarrow> Row list" where
  "Table_Select t predicate = map Row_Clone (filter (matches predicate) (Rows t))"

definition Table_GetRow :: "Table \<Rightarrow> int \<Rightarrow> error + Row" where
  "Table_GetRow t rowID =
     (if rowID < 0 \<or> int (length (Rows t)) \<le> rowID then Inl (RowNotFound rowID)
      else Inr (Row_Clone (Rows t ! nat rowID)))"

definition Table_Count :: "Table \<Rightarrow> nat" where
  "Table_Count t = length (Rows t)"

subsection \<open>Table.Update\<close>

text \<open>
  The two loops over the columns after \<open>updater(row)\<close>. \<open>newVal.Equals\<close> on a nil
  \<open>newVal\<close> panics. The outer \<open>option\<close> is the panic, the inner one the error returned.
\<close>

fun check_pk_unchanged :: "Schema \<Rightarrow> Row \<Rightarrow> Row \<Rightarrow> Column list \<Rightarrow> error option option" where
  "check_pk_unchanged s row oldRow [] = Some None"
| "check_pk_unchanged s row oldRow (col # cols) =
     (if PrimaryKey col then
        (case Row_Get row (ColumnIndex s (Col_Name col)) of
           None \<Rightarrow> None
         | Some newVal \<Rightarrow>
             if \<not> Equals_nil newVal (Row_Get oldRow (ColumnIndex s (Col_Name col))) then
               Some (Some (CannotUpdatePrimaryKey (Col_Name col)))
             else check_pk_unchanged s row oldRow cols)
      else check_pk_unchanged s row oldRow cols)"

definition collides :: "Row list \<Rightarrow> nat \<Rightarrow> int \<Rightarrow> Value \<Rightarrow> bool" where
  "collides rows i colIndex newVal =
     list_ex (\<lambda>j. j \<noteq> i \<and> Equals_nil newVal (Row_Get (rows ! j) colIndex)) [0..<length rows]"

fun check_unique :: "Schema \<Rightarrow> Row list \<Rightarrow> nat \<Rightarrow> Row \<Rightarrow> Row \<Rightarrow> Column list \<Rightarrow> error option option" where
  "check_unique s rows i row oldRow [] = Some None"
| "check_unique s rows i row oldRow (col # cols) =
     (if Unique col then
        (case Row_Get row (ColumnIndex s (Col_Name col)) of
           None \<Rightarrow> None
         | Some newVal \<Rightarrow>
             if \<not> Equals_nil newVal (Row_Get oldRow (ColumnIndex s (Col_Name col))) \<and>
                collides rows i (ColumnIndex s (Col_Name col)) newVal then
               Some (Some (UniqueViolation newVal))
             else check_unique s rows i row oldRow cols)
      else check_unique s rows i row oldRow cols)"

text \<open>
  The loop over the rows, by index. \<open>updater\<close> mutates the stored row in place: the row
  is written to the table before the checks, and a return with an error leaves it there.
\<close>

fun update_rows ::
  "Table \<Rightarrow> (Row \<Rightarrow> bool) option \<Rightarrow> (Row \<Rightarrow> Row) \<Rightarrow> nat list \<Rightarrow> go_int \<Rightarrow> (Table \<times> (error + go_int)) option" where
  "update_rows t predicate updater [] updated = Some (t, Inr updated)"
| "update_rows t predicate updater (i # is) updated =
     (if matches predicate (Rows t ! i) then
        (let oldRow = Row_Clone (Rows t ! i);
             row = updater (Rows t ! i);
             t' = t\<lparr>Rows := (Rows t)[i := row]\<rparr>
         in
         (case check_pk_unchanged (Schema t) row oldRow (Columns (Schema t)) of
            None \<Rightarrow> None
          | Some (Some err) \<Rightarrow> Some (t', Inl err)
          | Some None \<Rightarrow>
              (case check_unique (Schema t) (Rows t') i row oldRow (Columns (Schema t)) of
                 None \<Rightarrow> None
               | Some (Some err) \<Rightarrow> Some (t', Inl err)
               | Some None \<Rightarrow> update_rows t' predicate updater is (updated + 1))))
      else update_rows t predicate updater is updated)"

definition Table_Update ::
  "Table \<Rightarrow> (Row \<Rightarrow> bool) option \<Rightarrow> (Row \<Rightarrow> Row) \<Rightarrow> (Table \<times> (error + go_int)) option" where
  "Table_Update t predicate updater = update_rows t predicate updater [0..<length (Rows t)] 0"

subsection \<open>Table.Delete, Table.Truncate\<close>

fun delete_from_indexes :: "Schema \<Rightarrow> Row \<Rightarrow> (string \<times> BTree) list \<Rightarrow> (string \<times> BTree) list option" where
  "delete_from_indexes s row [] = Some []"
| "delete_from_indexes s row ((colName, index) # rest) =
     (case delete_from_indexes s row rest of
        None \<Rightarrow> None
      | Some rest' \<Rightarrow>
          (case Row_Get row (ColumnIndex s colName) of
             None \<Rightarrow> Some ((colName, index) # rest')
           | Some val \<Rightarrow>
               (case BTree_Delete index val of
                  None \<Rightarrow> None
                | Some (index', err) \<Rightarrow> Some ((colName, index') # rest'))))"

fun delete_rows ::
  "Schema \<Rightarrow> (Row \<Rightarrow> bool) option \<Rightarrow> Row list \<Rightarrow> (string \<times> BTree) list \<Rightarrow>
   (Row list \<times> (string \<times> BTree) list \<times> go_int) option" where
  "delete_rows s predicate [] indexes = Some ([], indexes, 0)"
| "delete_rows s predicate (row # rows) indexes =
     (if matches predicate row then
        (case delete_from_indexes s row indexes of
           None \<Rightarrow> None
         | Some indexes' \<Rightarrow>
             (case delete_rows s predicate rows indexes' of
                None \<Rightarrow> None
              | Some (newRows, indexes'', deleted) \<Rightarrow> Some (newRows, indexes'', deleted + 1)))
      else
        (case delete_rows s predicate rows indexes of
           None \<Rightarrow> None
         | Some (newRows, indexes', deleted) \<Rightarrow> Some (row # newRows, indexes', deleted)))"

definition Table_Delete :: "Table \<Rightarrow> (Row \<Rightarrow> bool) option \<Rightarrow> (Table \<times> go_int) option" where
  "Table_Delete t predicate =
     (case delete_rows (Schema t) predicate (Rows t) (Indexes t) of
        None \<Rightarrow> None
      | Some (newRows, indexes, deleted) \<Rightarrow> Some (t\<lparr>Rows := newRows, Indexes := indexes\<rparr>, deleted))"


fun all_columns_exist :: "Schema \<Rightarrow> string list \<Rightarrow> error option" where
  "all_columns_exist s [] = None"
| "all_columns_exist s (colName # cols) =
     (if GetColumn s colName = None then Some (ColumnNotFound colName) else all_columns_exist s cols)"

definition Table_AddForeignKey :: "Table \<Rightarrow> ForeignKey \<Rightarrow> Table \<times> error option" where
  "Table_AddForeignKey t fk =
     (if length (FK_Columns fk) \<noteq> length (RefColumns fk) then (t, Some ForeignKeyCountMismatch)
      else
        (case all_columns_exist (Schema t) (FK_Columns fk) of
           Some err \<Rightarrow> (t, Some err)
         | None \<Rightarrow> (t\<lparr>ForeignKeys := ForeignKeys t @ [fk]\<rparr>, None)))"


subsection \<open>The row id sequence and the primary keys\<close>







section \<open>The catalog (internal/storage/database.go)\<close>

text \<open>
  \<open>Database.tables\<close> maps a name to a pointer to the table; a method that mutates a table
  through the pointer is an update of the map. \<open>CascadeDelete\<close> is not modelled (no
  statement calls it).
\<close>

record Database =
  tables :: "string \<rightharpoonup> Table"

definition NewDatabase :: Database where
  "NewDatabase = \<lparr>tables = Map.empty\<rparr>"

definition GetTable :: "Database \<Rightarrow> string \<Rightarrow> error + Table" where
  "GetTable db name =
     (case tables db name of None \<Rightarrow> Inl (TableNotFound name) | Some table \<Rightarrow> Inr table)"

text \<open>An index on every primary-key column, and on every other unique column.\<close>

fun create_indexes :: "Table \<Rightarrow> Column list \<Rightarrow> (Table \<times> error option) option" where
  "create_indexes table [] = Some (table, None)"
| "create_indexes table (col # cols) =
     (if PrimaryKey col \<or> Unique col then
        (case Table_AddIndex table (Col_Name col) of
           None \<Rightarrow> None
         | Some (table', Some err) \<Rightarrow> Some (table', Some err)
         | Some (table', None) \<Rightarrow> create_indexes table' cols)
      else create_indexes table cols)"

definition CreateTable :: "Database \<Rightarrow> string \<Rightarrow> Schema \<Rightarrow> (Database \<times> error option) option" where
  "CreateTable db name schema =
     (if tables db name \<noteq> None then Some (db, Some (TableExists name))
      else
        (case create_indexes (NewTable name schema) (Columns schema) of
           None \<Rightarrow> None
         | Some (table, Some err) \<Rightarrow> Some (db, Some (IndexCreationFailed err))
         | Some (table, None) \<Rightarrow> Some (db\<lparr>tables := (tables db)(name \<mapsto> table)\<rparr>, None)))"

definition DropTable :: "Database \<Rightarrow> string \<Rightarrow> Database \<times> error option" where
  "DropTable db name =
     (if tables db name = None then (db, Some (TableNotFound name))
      else (db\<lparr>tables := (tables db)(name := None)\<rparr>, None))"


section \<open>The syntax tree (internal/sql/ast.go)\<close>

datatype Expression =
    LiteralExpression string
  | NullLiteral
  | ColumnRef string string
  | BinaryExpression Expression string Expression
  | UnaryExpression string Expression
  | FunctionCall string "Expression list"

record TableRef =
  TR_Name :: string
  TR_Alias :: string

record JoinClause =
  J_Type :: string
  J_Table :: string
  J_Alias :: string
  Conditions :: "Expression list"

record OrderByClause =
  OB_Column :: string
  Asc :: bool

record SelectStatement =
  Sel_Columns :: "string list"
  Sel_Tables :: "TableRef list"
  Sel_Where :: "Expression option"
  Joins :: "JoinClause list"
  OrderBy :: "OrderByClause list"
  Limit :: "go_int option"
  Offset :: "go_int option"
  Distinct :: bool

record InsertStatement =
  Ins_Table :: string
  Ins_Columns :: "string list"
  Ins_Values :: "Expression list list"

record SetClause =
  SC_Column :: string
  SC_Value :: Expression

record UpdateStatement =
  Upd_Table :: string
  SetClauses :: "SetClause list"
  Upd_Where :: "Expression option"

record DeleteStatement =
  Del_Table :: string
  Del_Where :: "Expression option"

record ColumnDefinition =
  CD_Name :: string
  CD_Type :: string
  CD_Primary :: bool
  CD_Unique :: bool
  CD_NotNull :: bool
  CD_Default :: "Expression option"

record CreateTableStatement =
  CT_Table :: string
  CT_Columns :: "ColumnDefinition list"

datatype Statement =
    Select SelectStatement
  | Insert InsertStatement
  | Update UpdateStatement
  | Delete DeleteStatement
  | CreateTableStmt CreateTableStatement
  | DropTableStmt string
  | BeginTransactionStatement
  | CommitStatement
  | RollbackStatement

section \<open>The executor (internal/sql/executor.go)\<close>

subsection \<open>What the executor takes from Go's library\<close>

text \<open>
  The arithmetic of \<open>float64\<close>, its conversion from \<open>int64\<close>, \<open>strconv.ParseFloat\<close> and
  \<open>strconv.FormatFloat(f, 'f', -1, 64)\<close> are Go's, not the engine's: the executor is
  modelled for any such operations and nothing is assumed of them. Comparison and
  negation of floats are exact and defined here.
\<close>

record float_ops =
  ParseFloat :: "string \<Rightarrow> float64 option"
  FormatFloat :: "float64 \<Rightarrow> string"
  float_add :: "float64 \<Rightarrow> float64 \<Rightarrow> float64"
  float_sub :: "float64 \<Rightarrow> float64 \<Rightarrow> float64"
  float_mul :: "float64 \<Rightarrow> float64 \<Rightarrow> float64"
  float_div :: "float64 \<Rightarrow> float64 \<Rightarrow> float64"
  float_of_int64 :: "int64 \<Rightarrow> float64"

fun float_neg :: "float64 \<Rightarrow> float64" where
  "float_neg FNaN = FNaN"
| "float_neg FPosInf = FNegInf"
| "float_neg FNegInf = FPosInf"
| "float_neg FNegZero = FFin 0"
| "float_neg (FFin q) = (if q = 0 then FNegZero else FFin (- q))"

definition is_digit :: "char \<Rightarrow> bool" where
  "is_digit c = (CHR ''0'' \<le> c \<and> c \<le> CHR ''9'')"

text \<open>\<open>strconv.FormatInt(v, 10)\<close>.\<close>

function digits_of :: "nat \<Rightarrow> string" where
  "digits_of n = (if n < 10 then [''0123456789'' ! n] else digits_of (n div 10) @ [''0123456789'' ! (n mod 10)])"
  by pat_completeness auto
termination
  by (relation "measure id") auto

definition FormatInt :: "int \<Rightarrow> string" where
  "FormatInt v = (if v < 0 then CHR ''-'' # digits_of (nat (- v)) else digits_of (nat v))"

definition ToString :: "float_ops \<Rightarrow> Value \<Rightarrow> string" where
  "ToString fl v =
     (case v of
        NullValue \<Rightarrow> ''NULL''
      | IntegerValue i \<Rightarrow> FormatInt (sint i)
      | FloatValue f \<Rightarrow> FormatFloat fl f
      | TextValue t \<Rightarrow> t
      | BooleanValue b \<Rightarrow> (if b then ''true'' else ''false''))"

text \<open>
  \<open>strconv.ParseInt(s, 10, 64)\<close> on a string of the form \<open>-?\d+\<close>, the only strings
  \<open>parseLiteral\<close> passes: an error when the number is not an \<open>int64\<close>.
\<close>

definition digit_value :: "char \<Rightarrow> nat" where
  "digit_value c = of_char c - of_char CHR ''0''"

definition decimal_value :: "string \<Rightarrow> nat" where
  "decimal_value ds = foldl (\<lambda>acc c. 10 * acc + digit_value c) 0 ds"

definition ParseInt :: "string \<Rightarrow> int64 option" where
  "ParseInt s =
     (let v = (case s of
                 CHR ''-'' # ds \<Rightarrow> - int (decimal_value ds)
               | _ \<Rightarrow> int (decimal_value s))
      in if - (2 ^ 63) \<le> v \<and> v < 2 ^ 63 then Some (word_of_int v) else None)"

subsection \<open>Literals\<close>

text \<open>The regular expression \<open>^-?\d+\.?\d*$\<close>.\<close>

definition isNumericLiteral :: "string \<Rightarrow> bool" where
  "isNumericLiteral s =
     (let s1 = (case s of CHR ''-'' # r \<Rightarrow> r | _ \<Rightarrow> s);
          r1 = dropWhile is_digit s1;
          r2 = (case r1 of CHR ''.'' # r \<Rightarrow> r | _ \<Rightarrow> r1)
      in takeWhile is_digit s1 \<noteq> [] \<and> list_all is_digit r2)"

definition containsDecimal :: "string \<Rightarrow> bool" where
  "containsDecimal s = (CHR ''.'' \<in> set s)"

definition toLowerChar :: "char \<Rightarrow> char" where
  "toLowerChar c =
     (if CHR ''A'' \<le> c \<and> c \<le> CHR ''Z'' then char_of (of_char c + (32 :: nat)) else c)"

text \<open>
  \<open>toLower\<close> on the bytes of the string. (The regular expression \<open>(?i)[A-Z]\<close> also
  matches two letters outside ASCII, which it replaces by a byte above 127: such a string
  is neither \<open>true\<close> nor \<open>false\<close> before or after.)
\<close>

definition toLower :: "string \<Rightarrow> string" where
  "toLower s = map toLowerChar s"

definition parseLiteral :: "float_ops \<Rightarrow> string \<Rightarrow> error + Value" where
  "parseLiteral fl v =
     (if isNumericLiteral v then
        (if containsDecimal v then
           (case ParseFloat fl v of
              None \<Rightarrow> Inl (InvalidFloatLiteral v)
            | Some f \<Rightarrow> Inr (FloatValue f))
         else
           (case ParseInt v of
              None \<Rightarrow> Inl (InvalidIntegerLiteral v)
            | Some i \<Rightarrow> Inr (IntegerValue i)))
      else if toLower v = ''true'' then Inr (BooleanValue True)
      else if toLower v = ''false'' then Inr (BooleanValue False)
      else Inr (TextValue v))"

subsection \<open>Operators\<close>

definition getValueAsBool :: "Value \<Rightarrow> bool" where
  "getValueAsBool v =
     (case v of
        BooleanValue b \<Rightarrow> b
      | IntegerValue i \<Rightarrow> i \<noteq> 0
      | FloatValue f \<Rightarrow> \<not> float_eq f (FFin 0)
      | TextValue t \<Rightarrow> t \<noteq> ''''
      | NullValue \<Rightarrow> False)"

text \<open>Go's \<open>/\<close> on \<open>int64\<close> truncates towards zero and wraps on overflow.\<close>

definition int64_div :: "int64 \<Rightarrow> int64 \<Rightarrow> int64" where
  "int64_div l r = word_of_int (sgn (sint l) * sgn (sint r) * (\<bar>sint l\<bar> div \<bar>sint r\<bar>))"

definition evaluateArithmeticOp :: "float_ops \<Rightarrow> Value \<Rightarrow> string \<Rightarrow> Value \<Rightarrow> error + Value" where
  "evaluateArithmeticOp fl left op right =
     (case (left, right) of
        (IntegerValue l, IntegerValue r) \<Rightarrow>
          if op = ''+'' then Inr (IntegerValue (l + r))
          else if op = ''-'' then Inr (IntegerValue (l - r))
          else if op = ''*'' then Inr (IntegerValue (l * r))
          else if op = ''/'' then
            (if r = 0 then Inl DivisionByZero else Inr (IntegerValue (int64_div l r)))
          else Inl ArithmeticUnsupported
      | (IntegerValue l, FloatValue r) \<Rightarrow>
          if op = ''+'' then Inr (FloatValue (float_add fl (float_of_int64 fl l) r))
          else if op = ''-'' then Inr (FloatValue (float_sub fl (float_of_int64 fl l) r))
          else if op = ''*'' then Inr (FloatValue (float_mul fl (float_of_int64 fl l) r))
          else if op = ''/'' then
            (if float_eq r (FFin 0) then Inl DivisionByZero
             else Inr (FloatValue (float_div fl (float_of_int64 fl l) r)))
          else Inl ArithmeticUnsupported
      | (FloatValue l, IntegerValue r) \<Rightarrow>
          if op = ''+'' then Inr (FloatValue (float_add fl l (float_of_int64 fl r)))
          else if op = ''-'' then Inr (FloatValue (float_sub fl l (float_of_int64 fl r)))
          else if op = ''*'' then Inr (FloatValue (float_mul fl l (float_of_int64 fl r)))
          else if op = ''/'' then
            (if r = 0 then Inl DivisionByZero
             else Inr (FloatValue (float_div fl l (float_of_int64 fl r))))
          else Inl ArithmeticUnsupported
      | (FloatValue l, FloatValue r) \<Rightarrow>
          if op = ''+'' then Inr (FloatValue (float_add fl l r))
          else if op = ''-'' then Inr (FloatValue (float_sub fl l r))
          else if op = ''*'' then Inr (FloatValue (float_mul fl l r))
          else if op = ''/'' then
            (if float_eq r (FFin 0) then Inl DivisionByZero
             else Inr (FloatValue (float_div fl l r)))
          else Inl ArithmeticUnsupported
      | _ \<Rightarrow> Inl ArithmeticUnsupported)"

definition evaluateBinaryOp :: "float_ops \<Rightarrow> Value \<Rightarrow> string \<Rightarrow> Value \<Rightarrow> error + Value" where
  "evaluateBinaryOp fl left op right =
     (if op = ''='' \<or> op = ''=='' then Inr (BooleanValue (Equals left right))
      else if op = ''!='' \<or> op = ''<>'' then Inr (BooleanValue (\<not> Equals left right))
      else if op = ''<'' then Inr (BooleanValue (LessThan left right))
      else if op = ''<='' then Inr (BooleanValue (LessThan left right \<or> Equals left right))
      else if op = ''>'' then Inr (BooleanValue (\<not> LessThan left right \<and> \<not> Equals left right))
      else if op = ''>='' then Inr (BooleanValue (\<not> LessThan left right))
      else if op = ''AND'' then Inr (BooleanValue (getValueAsBool left \<and> getValueAsBool right))
      else if op = ''OR'' then Inr (BooleanValue (getValueAsBool left \<or> getValueAsBool right))
      else if op = ''+'' \<or> op = ''-'' \<or> op = ''*'' \<or> op = ''/'' then
        evaluateArithmeticOp fl left op right
      else Inl (UnsupportedBinaryOperator op))"

definition evaluateUnaryOp :: "string \<Rightarrow> Value \<Rightarrow> error + Value" where
  "evaluateUnaryOp op right =
     (if op = ''NOT'' then Inr (BooleanValue (\<not> getValueAsBool right))
      else if op = ''-'' then
        (case right of
           IntegerValue v \<Rightarrow> Inr (IntegerValue (- v))
         | FloatValue v \<Rightarrow> Inr (FloatValue (float_neg v))
         | _ \<Rightarrow> Inl UnaryMinusUnsupported)
      else Inl (UnsupportedUnaryOperator op))"

subsection \<open>Expressions over one table\<close>

text \<open>
  \<open>table\<close> and \<open>row\<close> may be nil. A column reference with a row and a nil table would
  dereference nil (\<open>None\<close>, the panic); no caller passes that.
\<close>

fun evaluateExpressionForRow ::
  "float_ops \<Rightarrow> Expression \<Rightarrow> Table option \<Rightarrow> Row option \<Rightarrow> (error + Value) option" where
  "evaluateExpressionForRow fl (LiteralExpression v) table row = Some (parseLiteral fl v)"
| "evaluateExpressionForRow fl NullLiteral table row = Some (Inr NullValue)"
| "evaluateExpressionForRow fl (ColumnRef tbl column) table row =
     (case row of
        None \<Rightarrow> Some (Inl NoRowContext)
      | Some r \<Rightarrow>
          (case table of
             None \<Rightarrow> None
           | Some t \<Rightarrow>
               if ColumnIndex (Schema t) column < 0 then Some (Inl (ColumnNotFound column))
               else
                 (case Row_Get r (ColumnIndex (Schema t) column) of
                    None \<Rightarrow> Some (Inl (IndexOutOfBounds (ColumnIndex (Schema t) column)))
                  | Some v \<Rightarrow> Some (Inr v))))"
| "evaluateExpressionForRow fl (BinaryExpression l op r) table row =
     (case evaluateExpressionForRow fl l table row of
        None \<Rightarrow> None
      | Some (Inl err) \<Rightarrow> Some (Inl err)
      | Some (Inr left) \<Rightarrow>
          (case evaluateExpressionForRow fl r table row of
             None \<Rightarrow> None
           | Some (Inl err) \<Rightarrow> Some (Inl err)
           | Some (Inr right) \<Rightarrow> Some (evaluateBinaryOp fl left op right)))"
| "evaluateExpressionForRow fl (UnaryExpression op r) table row =
     (case evaluateExpressionForRow fl r table row of
        None \<Rightarrow> None
      | Some (Inl err) \<Rightarrow> Some (Inl err)
      | Some (Inr right) \<Rightarrow> Some (evaluateUnaryOp op right))"
| "evaluateExpressionForRow fl (FunctionCall name args) table row =
     Some (Inl UnsupportedExpression)"

definition evaluateExpression :: "float_ops \<Rightarrow> Expression \<Rightarrow> Table option \<Rightarrow> (error + Value) option" where
  "evaluateExpression fl expr table = evaluateExpressionForRow fl expr table None"

lemma evaluateExpressionForRow_no_panic:
  "evaluateExpressionForRow fl expr (Some table) row \<noteq> None"
  by (induction expr) (auto split: option.splits sum.splits)

lemma evaluateExpression_no_panic: "evaluateExpression fl expr table \<noteq> None"
  unfolding evaluateExpression_def
  by (induction expr) (auto split: option.splits sum.splits)

text \<open>
  \<open>buildPredicate\<close>: a missing \<open>WHERE\<close> is the constant true; otherwise the row is
  accepted when the expression evaluates, without error, to a \<open>BooleanValue\<close> that is
  true. The table is not nil, so the evaluation does not panic.
\<close>

definition buildPredicate :: "float_ops \<Rightarrow> Expression option \<Rightarrow> Table \<Rightarrow> Row \<Rightarrow> bool" where
  "buildPredicate fl expr table =
     (case expr of
        None \<Rightarrow> (\<lambda>row. True)
      | Some e \<Rightarrow>
          (\<lambda>row. case evaluateExpressionForRow fl e (Some table) (Some row) of
                   Some (Inr (BooleanValue b)) \<Rightarrow> b
                 | _ \<Rightarrow> False))"


subsection \<open>Results\<close>

record Result =
  Res_Columns :: "string list"
  Res_Rows :: "string list list"
  RowsAffected :: go_int
  Message :: string

definition message_result :: "string \<Rightarrow> Result" where
  "message_result m = \<lparr>Res_Columns = [], Res_Rows = [], RowsAffected = 0, Message = m\<rparr>"

definition affected_result :: "go_int \<Rightarrow> string \<Rightarrow> Result" where
  "affected_result n what =
     \<lparr>Res_Columns = [], Res_Rows = [], RowsAffected = n,
      Message = FormatInt (sint n) @ '' row(s) '' @ what\<rparr>"

subsection \<open>INSERT\<close>

text \<open>
  The slots of one row, in schema order: the expression of a slot, or none for a slot the
  statement leaves out. With a column list, a column named twice keeps its last
  expression; without one, expressions beyond the schema are ignored.
\<close>

definition row_slots :: "Table \<Rightarrow> string list \<Rightarrow> Expression list \<Rightarrow> Expression option list" where
  "row_slots table columns rowExprs =
     (if columns \<noteq> [] then
        map (\<lambda>colDef. map_of (rev (zip columns rowExprs)) (Col_Name colDef))
          (Columns (Schema table))
      else
        map (\<lambda>i. if i < length rowExprs then Some (rowExprs ! i) else None)
          [0..<length (Columns (Schema table))])"

text \<open>Every slot is filled: an omitted one with \<open>NullValue\<close>. The first error returns.\<close>

fun eval_slots :: "float_ops \<Rightarrow> Table \<Rightarrow> Expression option list \<Rightarrow> (error + Row) option" where
  "eval_slots fl table [] = Some (Inr [])"
| "eval_slots fl table (slot # slots) =
     (case (case slot of None \<Rightarrow> Some (Inr NullValue)
                       | Some expr \<Rightarrow> evaluateExpression fl expr (Some table)) of
        None \<Rightarrow> None
      | Some (Inl err) \<Rightarrow> Some (Inl err)
      | Some (Inr val) \<Rightarrow>
          (case eval_slots fl table slots of
             None \<Rightarrow> None
           | Some (Inl err) \<Rightarrow> Some (Inl err)
           | Some (Inr vals) \<Rightarrow> Some (Inr (val # vals))))"

text \<open>The loop over the rows of the statement; a row rejected returns with its error.\<close>

fun insert_rows ::
  "float_ops \<Rightarrow> Table \<Rightarrow> string list \<Rightarrow> Expression list list \<Rightarrow> go_int \<Rightarrow> (Table \<times> (error + go_int)) option" where
  "insert_rows fl table columns [] affected = Some (table, Inr affected)"
| "insert_rows fl table columns (rowExprs # rest) affected =
     (case eval_slots fl table (row_slots table columns rowExprs) of
        None \<Rightarrow> None
      | Some (Inl err) \<Rightarrow> Some (table, Inl err)
      | Some (Inr rowValues) \<Rightarrow>
          (case Table_Insert table rowValues of
             None \<Rightarrow> None
           | Some (table', Inl err) \<Rightarrow> Some (table', Inl err)
           | Some (table', Inr rowID) \<Rightarrow> insert_rows fl table' columns rest (affected + 1)))"

definition executeInsert :: "float_ops \<Rightarrow> Database \<Rightarrow> InsertStatement \<Rightarrow> (Database \<times> (error + Result)) option" where
  "executeInsert fl db stmt =
     (case GetTable db (Ins_Table stmt) of
        Inl err \<Rightarrow> Some (db, Inl err)
      | Inr table \<Rightarrow>
          (case insert_rows fl table (Ins_Columns stmt) (Ins_Values stmt) 0 of
             None \<Rightarrow> None
           | Some (table', r) \<Rightarrow>
               Some (db\<lparr>tables := (tables db)(Ins_Table stmt \<mapsto> table')\<rparr>,
                     case r of Inl err \<Rightarrow> Inl err
                             | Inr n \<Rightarrow> Inr (affected_result n ''inserted''))))"

subsection \<open>UPDATE and DELETE\<close>

text \<open>
  The updater evaluates every \<open>SET\<close> expression without a row; if one fails it returns
  and the row stays as it is. Otherwise each column that exists is set; a column set
  twice keeps the last value.
\<close>

fun set_values :: "float_ops \<Rightarrow> Table \<Rightarrow> SetClause list \<Rightarrow> (string \<times> Value) list option" where
  "set_values fl table [] = Some []"
| "set_values fl table (setClause # rest) =
     (case evaluateExpression fl (SC_Value setClause) (Some table) of
        Some (Inr val) \<Rightarrow>
          (case set_values fl table rest of
             None \<Rightarrow> None
           | Some updates \<Rightarrow> Some ((SC_Column setClause, val) # updates))
      | _ \<Rightarrow> None)"

fun apply_updates :: "Table \<Rightarrow> (string \<times> Value) list \<Rightarrow> Row \<Rightarrow> Row" where
  "apply_updates table [] row = row"
| "apply_updates table ((colName, val) # updates) row =
     apply_updates table updates
       (case Row_Set row (ColumnIndex (Schema table) colName) val of
          None \<Rightarrow> row
        | Some row' \<Rightarrow> row')"

definition updater :: "float_ops \<Rightarrow> Table \<Rightarrow> SetClause list \<Rightarrow> Row \<Rightarrow> Row" where
  "updater fl table setClauses row =
     (case set_values fl table setClauses of
        None \<Rightarrow> row
      | Some updates \<Rightarrow> apply_updates table updates row)"

definition executeUpdate :: "float_ops \<Rightarrow> Database \<Rightarrow> UpdateStatement \<Rightarrow> (Database \<times> (error + Result)) option" where
  "executeUpdate fl db stmt =
     (case GetTable db (Upd_Table stmt) of
        Inl err \<Rightarrow> Some (db, Inl err)
      | Inr table \<Rightarrow>
          (case Table_Update table (Some (buildPredicate fl (Upd_Where stmt) table))
                  (updater fl table (SetClauses stmt)) of
             None \<Rightarrow> None
           | Some (table', r) \<Rightarrow>
               Some (db\<lparr>tables := (tables db)(Upd_Table stmt \<mapsto> table')\<rparr>,
                     case r of Inl err \<Rightarrow> Inl err
                             | Inr n \<Rightarrow> Inr (affected_result n ''updated''))))"

definition executeDelete :: "float_ops \<Rightarrow> Database \<Rightarrow> DeleteStatement \<Rightarrow> (Database \<times> (error + Result)) option" where
  "executeDelete fl db stmt =
     (case GetTable db (Del_Table stmt) of
        Inl err \<Rightarrow> Some (db, Inl err)
      | Inr table \<Rightarrow>
          (case Table_Delete table (Some (buildPredicate fl (Del_Where stmt) table)) of
             None \<Rightarrow> None
           | Some (table', n) \<Rightarrow>
               Some (db\<lparr>tables := (tables db)(Del_Table stmt \<mapsto> table')\<rparr>,
                     Inr (affected_result n ''deleted''))))"

subsection \<open>CREATE TABLE and DROP TABLE\<close>

definition parseDataType :: "string \<Rightarrow> error + DataType" where
  "parseDataType typeName =
     (if typeName = ''INTEGER'' then Inr TypeInteger
      else if typeName = ''TEXT'' \<or> typeName = ''VARCHAR'' \<or> typeName = ''STRING'' then Inr TypeText
      else if typeName = ''FLOAT'' \<or> typeName = ''REAL'' \<or> typeName = ''DOUBLE'' then Inr TypeFloat
      else if typeName = ''BOOLEAN'' \<or> typeName = ''BOOL'' then Inr TypeBoolean
      else Inl (UnsupportedDataType typeName))"

fun build_columns :: "float_ops \<Rightarrow> ColumnDefinition list \<Rightarrow> (error + Column list) option" where
  "build_columns fl [] = Some (Inr [])"
| "build_columns fl (colDef # rest) =
     (case parseDataType (CD_Type colDef) of
        Inl err \<Rightarrow> Some (Inl (InvalidColumnType (CD_Type colDef) (CD_Name colDef) err))
      | Inr dataType \<Rightarrow>
          (case (case CD_Default colDef of
                   None \<Rightarrow> Some (Inr None)
                 | Some expr \<Rightarrow>
                     (case evaluateExpression fl expr None of
                        None \<Rightarrow> None
                      | Some (Inl err) \<Rightarrow> Some (Inl (DefaultValueError (CD_Name colDef) err))
                      | Some (Inr defaultValue) \<Rightarrow> Some (Inr (Some defaultValue)))) of
             None \<Rightarrow> None
           | Some (Inl err) \<Rightarrow> Some (Inl err)
           | Some (Inr dflt) \<Rightarrow>
               (case build_columns fl rest of
                  None \<Rightarrow> None
                | Some (Inl err) \<Rightarrow> Some (Inl err)
                | Some (Inr cols) \<Rightarrow>
                    Some (Inr ((NewColumn (CD_Name colDef) dataType (CD_Primary colDef)
                                  (CD_Unique colDef) (CD_NotNull colDef))\<lparr>Default := dflt\<rparr> # cols)))))"

definition executeCreateTable ::
  "float_ops \<Rightarrow> Database \<Rightarrow> CreateTableStatement \<Rightarrow> (Database \<times> (error + Result)) option" where
  "executeCreateTable fl db stmt =
     (case build_columns fl (CT_Columns stmt) of
        None \<Rightarrow> None
      | Some (Inl err) \<Rightarrow> Some (db, Inl err)
      | Some (Inr cols) \<Rightarrow>
          (case CreateTable db (CT_Table stmt) \<lparr>Columns = cols\<rparr> of
             None \<Rightarrow> None
           | Some (db', Some err) \<Rightarrow> Some (db', Inl err)
           | Some (db', None) \<Rightarrow>
               Some (db', Inr (message_result (''Table '' @ CT_Table stmt @ '' created'')))))"

definition executeDropTable :: "Database \<Rightarrow> string \<Rightarrow> Database \<times> (error + Result)" where
  "executeDropTable db name =
     (case DropTable db name of
        (db', Some err) \<Rightarrow> (db', Inl err)
      | (db', None) \<Rightarrow> (db', Inr (message_result (''Table '' @ name @ '' dropped''))))"

subsection \<open>SELECT\<close>

text \<open>
  \<open>tableMap\<close> and \<open>offsetMap\<close> are written together under the same key: one list of
  entries (name, table, offset), a key written again replacing its entry.
\<close>

type_synonym join_ctx = "(string \<times> Table \<times> nat) list"

fun register :: "string \<Rightarrow> Table \<Rightarrow> nat \<Rightarrow> join_ctx \<Rightarrow> join_ctx" where
  "register name table offset [] = [(name, table, offset)]"
| "register name table offset ((n, e) # ctx) =
     (if n = name then (name, table, offset) # ctx else (n, e) # register name table offset ctx)"

definition resolveColumnIndex :: "string \<Rightarrow> string \<Rightarrow> join_ctx \<Rightarrow> error + int" where
  "resolveColumnIndex tbl column ctx =
     (if tbl \<noteq> '''' then
        (case map_of ctx tbl of
           None \<Rightarrow> Inl (UnknownTableOrAlias tbl)
         | Some (table, offset) \<Rightarrow>
             if ColumnIndex (Schema table) column < 0 then Inl (ColumnNotInTable column tbl)
             else Inr (int offset + ColumnIndex (Schema table) column))
      else
        (case filter (\<lambda>(name, table, offset). 0 \<le> ColumnIndex (Schema table) column) ctx of
           [] \<Rightarrow> Inl (ColumnNotFound column)
         | [(name, table, offset)] \<Rightarrow> Inr (int offset + ColumnIndex (Schema table) column)
         | _ \<Rightarrow> Inl (AmbiguousColumn column)))"

fun evaluateExpressionForJoinedRow ::
  "float_ops \<Rightarrow> Expression \<Rightarrow> Row option \<Rightarrow> join_ctx \<Rightarrow> error + Value" where
  "evaluateExpressionForJoinedRow fl (LiteralExpression v) row ctx = parseLiteral fl v"
| "evaluateExpressionForJoinedRow fl NullLiteral row ctx = Inr NullValue"
| "evaluateExpressionForJoinedRow fl (ColumnRef tbl column) row ctx =
     (case row of
        None \<Rightarrow> Inl NoRowContext
      | Some r \<Rightarrow>
          (case resolveColumnIndex tbl column ctx of
             Inl err \<Rightarrow> Inl err
           | Inr idx \<Rightarrow>
               (case Row_Get r idx of None \<Rightarrow> Inl (IndexOutOfBounds idx) | Some v \<Rightarrow> Inr v)))"
| "evaluateExpressionForJoinedRow fl (BinaryExpression l op r) row ctx =
     (case evaluateExpressionForJoinedRow fl l row ctx of
        Inl err \<Rightarrow> Inl err
      | Inr left \<Rightarrow>
          (case evaluateExpressionForJoinedRow fl r row ctx of
             Inl err \<Rightarrow> Inl err
           | Inr right \<Rightarrow> evaluateBinaryOp fl left op right))"
| "evaluateExpressionForJoinedRow fl (UnaryExpression op r) row ctx =
     (case evaluateExpressionForJoinedRow fl r row ctx of
        Inl err \<Rightarrow> Inl err
      | Inr right \<Rightarrow> evaluateUnaryOp op right)"
| "evaluateExpressionForJoinedRow fl (FunctionCall name args) row ctx = Inl UnsupportedExpression"

text \<open>A combined row is kept when every condition evaluates, without error, to a truthy value.\<close>

definition join_matches :: "float_ops \<Rightarrow> join_ctx \<Rightarrow> Expression list \<Rightarrow> Row \<Rightarrow> bool" where
  "join_matches fl ctx conds combinedRow =
     list_all (\<lambda>cond. case evaluateExpressionForJoinedRow fl cond (Some combinedRow) ctx of
                        Inl err \<Rightarrow> False
                      | Inr val \<Rightarrow> getValueAsBool val) conds"

definition join_rows ::
  "float_ops \<Rightarrow> join_ctx \<Rightarrow> JoinClause \<Rightarrow> Row list \<Rightarrow> nat \<Rightarrow> Row list \<Rightarrow> Row list" where
  "join_rows fl ctx join targetRows targetColsLen intermediateRows =
     concat (map (\<lambda>leftRow.
        let matched = filter (join_matches fl ctx (Conditions join))
                        (map (\<lambda>rightRow. leftRow @ rightRow) targetRows)
        in if matched = [] \<and> (J_Type join = ''LEFT'' \<or> J_Type join = ''LEFT OUTER'')
           then [leftRow @ replicate targetColsLen NullValue]
           else matched) intermediateRows)"

fun process_joins ::
  "float_ops \<Rightarrow> Database \<Rightarrow> JoinClause list \<Rightarrow> join_ctx \<Rightarrow> nat \<Rightarrow> Row list \<Rightarrow> error + join_ctx \<times> Row list" where
  "process_joins fl db [] ctx currentOffset rows = Inr (ctx, rows)"
| "process_joins fl db (join # joins) ctx currentOffset rows =
     (case GetTable db (J_Table join) of
        Inl err \<Rightarrow> Inl err
      | Inr targetTable \<Rightarrow>
          (let lookupName = (if J_Alias join \<noteq> '''' then J_Alias join else J_Table join);
               ctx' = register lookupName targetTable currentOffset ctx;
               targetColsLen = length (Columns (Schema targetTable))
           in process_joins fl db joins ctx' (currentOffset + targetColsLen)
                (join_rows fl ctx' join (Table_Select targetTable None) targetColsLen rows)))"

fun filter_where :: "float_ops \<Rightarrow> join_ctx \<Rightarrow> Expression option \<Rightarrow> Row list \<Rightarrow> error + Row list" where
  "filter_where fl ctx wher [] = Inr []"
| "filter_where fl ctx wher (row # rows) =
     (case (case wher of
              None \<Rightarrow> Inr True
            | Some expr \<Rightarrow>
                (case evaluateExpressionForJoinedRow fl expr (Some row) ctx of
                   Inl err \<Rightarrow> Inl err
                 | Inr val \<Rightarrow> Inr (getValueAsBool val))) of
        Inl err \<Rightarrow> Inl err
      | Inr keep \<Rightarrow>
          (case filter_where fl ctx wher rows of
             Inl err \<Rightarrow> Inl err
           | Inr finalRows \<Rightarrow> Inr (if keep then row # finalRows else finalRows)))"

text \<open>The columns of the result: \<open>*\<close> alone is every column of the primary and the joined tables.\<close>

fun joined_columns :: "Database \<Rightarrow> JoinClause list \<Rightarrow> string list option" where
  "joined_columns db [] = Some []"
| "joined_columns db (join # joins) =
     (case GetTable db (J_Table join) of
        Inl err \<Rightarrow> None
      | Inr tbl \<Rightarrow>
          (case joined_columns db joins of
             None \<Rightarrow> None
           | Some names \<Rightarrow> Some (map Col_Name (Columns (Schema tbl)) @ names)))"

definition result_columns :: "Database \<Rightarrow> Table \<Rightarrow> SelectStatement \<Rightarrow> string list option" where
  "result_columns db primaryTable stmt =
     (if Sel_Columns stmt = [''*''] then
        (case joined_columns db (Joins stmt) of
           None \<Rightarrow> None
         | Some names \<Rightarrow> Some (map Col_Name (Columns (Schema primaryTable)) @ names))
      else Some (Sel_Columns stmt))"

text \<open>A column name is split at its first dot. \<open>val.ToString()\<close> on a nil \<open>val\<close> panics.\<close>

definition split_column :: "string \<Rightarrow> string \<times> string" where
  "split_column colName =
     (if CHR ''.'' \<in> set colName
      then (takeWhile (\<lambda>c. c \<noteq> CHR ''.'') colName, tl (dropWhile (\<lambda>c. c \<noteq> CHR ''.'') colName))
      else ('''', colName))"

fun render_row :: "float_ops \<Rightarrow> join_ctx \<Rightarrow> Row \<Rightarrow> string list \<Rightarrow> (error + string list) option" where
  "render_row fl ctx row [] = Some (Inr [])"
| "render_row fl ctx row (colName # colNames) =
     (case resolveColumnIndex (fst (split_column colName)) (snd (split_column colName)) ctx of
        Inl err \<Rightarrow> Some (Inl err)
      | Inr idx \<Rightarrow>
          (case Row_Get row idx of
             None \<Rightarrow> None
           | Some val \<Rightarrow>
               (case render_row fl ctx row colNames of
                  None \<Rightarrow> None
                | Some (Inl err) \<Rightarrow> Some (Inl err)
                | Some (Inr strs) \<Rightarrow> Some (Inr (ToString fl val # strs)))))"

fun render_rows :: "float_ops \<Rightarrow> join_ctx \<Rightarrow> string list \<Rightarrow> Row list \<Rightarrow> (error + string list list) option" where
  "render_rows fl ctx colNames [] = Some (Inr [])"
| "render_rows fl ctx colNames (row # rows) =
     (case render_row fl ctx row colNames of
        None \<Rightarrow> None
      | Some (Inl err) \<Rightarrow> Some (Inl err)
      | Some (Inr strs) \<Rightarrow>
          (case render_rows fl ctx colNames rows of
             None \<Rightarrow> None
           | Some (Inl err) \<Rightarrow> Some (Inl err)
           | Some (Inr rest) \<Rightarrow> Some (Inr (strs # rest))))"

text \<open>
  Step 5. The slice is taken only when the statement has a \<open>LIMIT\<close> and the result is not
  empty; \<open>OFFSET\<close> is read inside that branch. \<open>rows[offset:end]\<close> panics unless
  \<open>0 \<le> offset \<le> end\<close>.
\<close>

definition limit_offset :: "go_int option \<Rightarrow> go_int option \<Rightarrow> 'a list \<Rightarrow> 'a list option" where
  "limit_offset limit offset rows =
     (case limit of
        Some count \<Rightarrow>
          if rows \<noteq> [] then
            (let off = (case offset of None \<Rightarrow> 0 | Some v \<Rightarrow> v) in
             if int (length rows) \<le> sint off then Some []
             else
               (let end0 = off + count;
                    end1 = (if int (length rows) < sint end0 then int (length rows) else sint end0)
                in if 0 \<le> sint off \<and> sint off \<le> end1
                   then Some (take (nat end1 - nat (sint off)) (drop (nat (sint off)) rows))
                   else None))
          else Some rows
      | None \<Rightarrow> Some rows)"

definition executeSelect :: "float_ops \<Rightarrow> Database \<Rightarrow> SelectStatement \<Rightarrow> (error + Result) option" where
  "executeSelect fl db stmt =
     (case Sel_Tables stmt of
        [] \<Rightarrow> Some (Inl NoTableSpecified)
      | primaryTableRef # others \<Rightarrow>
          (case GetTable db (TR_Name primaryTableRef) of
             Inl err \<Rightarrow> Some (Inl err)
           | Inr primaryTable \<Rightarrow>
               (let lookupName = (if TR_Alias primaryTableRef \<noteq> '''' then TR_Alias primaryTableRef
                                  else TR_Name primaryTableRef);
                    intermediateRows = map Row_Clone (Table_Select primaryTable None)
                in
                case process_joins fl db (Joins stmt) [(lookupName, primaryTable, 0)]
                       (length (Columns (Schema primaryTable))) intermediateRows of
                  Inl err \<Rightarrow> Some (Inl err)
                | Inr (ctx, joinedRows) \<Rightarrow>
                    (case filter_where fl ctx (Sel_Where stmt) joinedRows of
                       Inl err \<Rightarrow> Some (Inl err)
                     | Inr finalRows \<Rightarrow>
                         (case result_columns db primaryTable stmt of
                            None \<Rightarrow> None
                          | Some columns \<Rightarrow>
                              (case render_rows fl ctx columns finalRows of
                                 None \<Rightarrow> None
                               | Some (Inl err) \<Rightarrow> Some (Inl err)
                               | Some (Inr rendered) \<Rightarrow>
                                   (case limit_offset (Limit stmt) (Offset stmt) rendered of
                                      None \<Rightarrow> None
                                    | Some rows \<Rightarrow>
                                        Some (Inr \<lparr>Res_Columns = columns, Res_Rows = rows,
                                                   RowsAffected = 0, Message = ''''\<rparr>))))))))"

subsection \<open>Dispatch\<close>

definition Execute :: "float_ops \<Rightarrow> Database \<Rightarrow> Statement \<Rightarrow> (Database \<times> (error + Result)) option" where
  "Execute fl db stmt =
     (case stmt of
        Select s \<Rightarrow> (case executeSelect fl db s of None \<Rightarrow> None | Some r \<Rightarrow> Some (db, r))
      | Insert s \<Rightarrow> executeInsert fl db s
      | Update s \<Rightarrow> executeUpdate fl db s
      | Delete s \<Rightarrow> executeDelete fl db s
      | CreateTableStmt s \<Rightarrow> executeCreateTable fl db s
      | DropTableStmt name \<Rightarrow> Some (executeDropTable db name)
      | BeginTransactionStatement \<Rightarrow> Some (db, Inr (message_result ''BEGIN TRANSACTION''))
      | CommitStatement \<Rightarrow> Some (db, Inr (message_result ''COMMIT''))
      | RollbackStatement \<Rightarrow> Some (db, Inr (message_result ''ROLLBACK'')))"


subsection \<open>Statements for the examples\<close>

text \<open>\<open>Execute\<close> on each statement of a list in turn, as the REPL does, collecting the results.\<close>

fun run :: "float_ops \<Rightarrow> Database \<Rightarrow> Statement list \<Rightarrow> (Database \<times> (error + Result) list) option" where
  "run fl db [] = Some (db, [])"
| "run fl db (s # ss) =
     (case Execute fl db s of
        None \<Rightarrow> None
      | Some (db', r) \<Rightarrow>
          (case run fl db' ss of None \<Rightarrow> None | Some (db'', rs) \<Rightarrow> Some (db'', r # rs)))"

text \<open>
  The statements the parser builds from

  \<^item> \<open>CREATE TABLE t (id INTEGER PRIMARY KEY, name TEXT NOT NULL, status TEXT DEFAULT 'active')\<close>,
  \<^item> \<open>INSERT INTO t (cols) VALUES rows\<close>,
  \<^item> \<open>SELECT * FROM t\<close> with an optional \<open>WHERE\<close>, \<open>LIMIT\<close> and \<open>OFFSET\<close>,
  \<^item> \<open>UPDATE t SET col = value\<close> and \<open>DELETE FROM t\<close> with an optional \<open>WHERE\<close>.
\<close>

definition create_table_t :: Statement where
  "create_table_t =
     CreateTableStmt \<lparr>CT_Table = ''t'', CT_Columns =
       [\<lparr>CD_Name = ''id'', CD_Type = ''INTEGER'', CD_Primary = True, CD_Unique = False,
          CD_NotNull = False, CD_Default = None\<rparr>,
        \<lparr>CD_Name = ''name'', CD_Type = ''TEXT'', CD_Primary = False, CD_Unique = False,
          CD_NotNull = True, CD_Default = None\<rparr>,
        \<lparr>CD_Name = ''status'', CD_Type = ''TEXT'', CD_Primary = False, CD_Unique = False,
          CD_NotNull = False, CD_Default = Some (LiteralExpression ''active'')\<rparr>]\<rparr>"

definition insert_into_t :: "string list \<Rightarrow> Expression list list \<Rightarrow> Statement" where
  "insert_into_t cols rows = Insert \<lparr>Ins_Table = ''t'', Ins_Columns = cols, Ins_Values = rows\<rparr>"

definition select_from_t :: "Expression option \<Rightarrow> go_int option \<Rightarrow> go_int option \<Rightarrow> Statement" where
  "select_from_t wh count off =
     Select \<lparr>Sel_Columns = [''*''], Sel_Tables = [\<lparr>TR_Name = ''t'', TR_Alias = ''''\<rparr>],
             Sel_Where = wh, Joins = [], OrderBy = [], Limit = count, Offset = off,
             Distinct = False\<rparr>"

definition update_t :: "string \<Rightarrow> Expression \<Rightarrow> Expression option \<Rightarrow> Statement" where
  "update_t col val wh =
     Update \<lparr>Upd_Table = ''t'', SetClauses = [\<lparr>SC_Column = col, SC_Value = val\<rparr>], Upd_Where = wh\<rparr>"

definition delete_from_t :: "Expression option \<Rightarrow> Statement" where
  "delete_from_t wh = Delete \<lparr>Del_Table = ''t'', Del_Where = wh\<rparr>"

text \<open>What a test reads of the outcome: the results, and the rows of the table \<open>t\<close>.\<close>

definition outcome ::
  "(Database \<times> (error + Result) list) option \<Rightarrow> ((error + Result) list \<times> Row list option) option" where
  "outcome r = map_option (\<lambda>(db, rs). (rs, map_option Rows (tables db ''t''))) r"


section \<open>The lexer (internal/sql/lexer.go)\<close>

datatype TokenType =
    TokenEOF | TokenKeyword | TokenIdentifier | TokenLiteral | TokenOperator
  | TokenPunctuation | TokenString

record Position =
  Line :: nat
  Column :: nat

record Token =
  Tok_Type :: TokenType
  Tok_Value :: string
  Tok_Position :: Position

text \<open>
  The lexer reads the input byte by byte: \<open>ch\<close> is \<open>rune(input[readPosition])\<close>, a code
  point below 256, or 0 at the end of the input.
\<close>

record Lexer =
  input :: string
  position :: nat
  readPosition :: nat
  ch :: char
  line :: nat
  column :: nat

text \<open>\<open>unicode.IsSpace\<close>, \<open>unicode.IsLetter\<close> and \<open>unicode.IsDigit\<close> on the code points below 256.\<close>

definition IsSpace :: "char \<Rightarrow> bool" where
  "IsSpace c = (of_char c \<in> {9, 10, 11, 12, 13, 32, 133, 160 :: nat})"

definition IsLetter :: "char \<Rightarrow> bool" where
  "IsLetter c =
     (let n = (of_char c :: nat) in
      (65 \<le> n \<and> n \<le> 90) \<or> (97 \<le> n \<and> n \<le> 122) \<or> n = 170 \<or> n = 181 \<or> n = 186 \<or>
      (192 \<le> n \<and> n \<le> 214) \<or> (216 \<le> n \<and> n \<le> 246) \<or> (248 \<le> n \<and> n \<le> 255))"

definition isLetter :: "char \<Rightarrow> bool" where
  "isLetter c = (IsLetter c \<or> c = CHR ''_'')"

definition isDigit :: "char \<Rightarrow> bool" where
  "isDigit c = is_digit c"

definition readChar :: "Lexer \<Rightarrow> Lexer" where
  "readChar l =
     (let c = (if length (input l) \<le> readPosition l then CHR 0x00 else input l ! readPosition l)
      in l\<lparr>ch := c, position := readPosition l, readPosition := readPosition l + 1,
            line := (if c = CHR 0x0A then line l + 1 else line l),
            column := (if c = CHR 0x0A then 1 else column l + 1)\<rparr>)"

definition NewLexer :: "string \<Rightarrow> Lexer" where
  "NewLexer inp =
     readChar \<lparr>input = inp, position = 0, readPosition = 0, ch = CHR 0x00, line = 1, column = 1\<rparr>"

definition peekChar :: "Lexer \<Rightarrow> char" where
  "peekChar l = (if length (input l) \<le> readPosition l then CHR 0x00 else input l ! readPosition l)"

text \<open>
  What is left to read: it decreases with every \<open>readChar\<close> at a character that is not
  0, the measure of the loops below.
\<close>

definition remaining :: "Lexer \<Rightarrow> nat" where
  "remaining l = (length (input l) - readPosition l) + (if ch l = CHR 0x00 then 0 else 1)"

lemma remaining_readChar: "ch l \<noteq> CHR 0x00 \<Longrightarrow> remaining (readChar l) < remaining l"
  by (auto simp: remaining_def readChar_def Let_def)

lemma remaining_readChar_le: "remaining (readChar l) \<le> remaining l"
  by (auto simp: remaining_def readChar_def Let_def)

text \<open>\<open>skipWhitespace\<close> stops at a newline: the loop runs while the character is a space and not \<open>'\n'\<close>.\<close>

function skipWhitespace :: "Lexer \<Rightarrow> Lexer" where
  "skipWhitespace l =
     (if IsSpace (ch l) \<and> ch l \<noteq> CHR 0x0A then skipWhitespace (readChar l) else l)"
  by pat_completeness auto
termination
  by (relation "measure remaining") (auto simp: IsSpace_def intro!: remaining_readChar)

declare skipWhitespace.simps [simp del]

function skip_to_eol :: "Lexer \<Rightarrow> Lexer" where
  "skip_to_eol l =
     (if ch l \<noteq> CHR 0x0A \<and> ch l \<noteq> CHR 0x00 then skip_to_eol (readChar l) else l)"
  by pat_completeness auto
termination
  by (relation "measure remaining") (auto intro!: remaining_readChar)

declare skip_to_eol.simps [simp del]

definition skipComment :: "Lexer \<Rightarrow> Lexer" where
  "skipComment l =
     (if ch l = CHR ''-'' \<and> peekChar l = CHR ''-'' then skipWhitespace (skip_to_eol l) else l)"

text \<open>\<open>l.input[a:b]\<close>; at each use \<open>a \<le> b \<le> len(input)\<close>.\<close>

definition substring :: "string \<Rightarrow> nat \<Rightarrow> nat \<Rightarrow> string" where
  "substring s a b = take (b - a) (drop a s)"

function read_identifier_chars :: "Lexer \<Rightarrow> Lexer" where
  "read_identifier_chars l =
     (if isLetter (ch l) \<or> isDigit (ch l) \<or> ch l = CHR ''_''
      then read_identifier_chars (readChar l) else l)"
  by pat_completeness auto
termination
  by (relation "measure remaining")
     (auto simp: isLetter_def IsLetter_def isDigit_def is_digit_def intro!: remaining_readChar)

declare read_identifier_chars.simps [simp del]

definition readIdentifier :: "Lexer \<Rightarrow> string \<times> Lexer" where
  "readIdentifier l =
     (let l' = read_identifier_chars l in (substring (input l) (position l) (position l'), l'))"

function read_number_chars :: "Lexer \<Rightarrow> bool \<Rightarrow> Lexer" where
  "read_number_chars l hasDecimal =
     (if isDigit (ch l) \<or> ch l = CHR ''.'' then
        (if ch l = CHR ''.'' then
           (if hasDecimal then l else read_number_chars (readChar l) True)
         else read_number_chars (readChar l) hasDecimal)
      else l)"
  by pat_completeness auto
termination
  by (relation "measure (\<lambda>(l, h). remaining l)")
     (auto simp: isDigit_def is_digit_def intro!: remaining_readChar)

declare read_number_chars.simps [simp del]

definition readNumber :: "Lexer \<Rightarrow> string \<times> Lexer" where
  "readNumber l =
     (let l' = read_number_chars l False in (substring (input l) (position l) (position l'), l'))"

function read_string_chars :: "Lexer \<Rightarrow> Lexer" where
  "read_string_chars l =
     (if ch l \<noteq> CHR 0x27 \<and> ch l \<noteq> CHR 0x00 then
        read_string_chars
          (readChar (if ch l = CHR 0x5C \<and> peekChar l = CHR 0x27 then readChar l else l))
      else l)"
  by pat_completeness auto
termination
proof (relation "measure remaining", goal_cases)
  case 1
  show ?case by simp
next
  case (2 l)
  then have "remaining (readChar l) < remaining l" by (auto intro: remaining_readChar)
  moreover have "remaining (readChar (readChar l)) \<le> remaining (readChar l)"
    by (rule remaining_readChar_le)
  ultimately show ?case by auto
qed

declare read_string_chars.simps [simp del]

definition readString :: "Lexer \<Rightarrow> string \<times> Lexer" where
  "readString l =
     (let l' = read_string_chars (readChar l)
      in (substring (input l) (position l + 1) (position l'), readChar l'))"

definition toUpperChar :: "char \<Rightarrow> char" where
  "toUpperChar c =
     (if CHR ''a'' \<le> c \<and> c \<le> CHR ''z'' then char_of (of_char c - (32 :: nat)) else c)"

definition keywordsMap :: "string list" where
  "keywordsMap =
     [''SELECT'', ''INSERT'', ''UPDATE'', ''DELETE'', ''CREATE'', ''DROP'', ''TABLE'', ''INTO'',
      ''VALUES'', ''SET'', ''FROM'', ''WHERE'', ''JOIN'', ''INNER'', ''LEFT'', ''RIGHT'', ''ON'',
      ''AND'', ''OR'', ''NOT'', ''NULL'', ''PRIMARY'', ''KEY'', ''UNIQUE'', ''DEFAULT'', ''FOREIGN'',
      ''REFERENCES'', ''CASCADE'', ''RESTRICT'', ''LIMIT'', ''OFFSET'', ''ORDER'', ''BY'', ''ASC'',
      ''DESC'', ''BEGIN'', ''COMMIT'', ''ROLLBACK'', ''TRANSACTION'']"

text \<open>
  \<open>strings.ToUpper\<close> on the bytes of the identifier: an identifier with a byte above 127
  is no keyword before or after.
\<close>

definition isKeyword :: "string \<Rightarrow> bool" where
  "isKeyword ident = (map toUpperChar ident \<in> set keywordsMap)"

text \<open>\<open>string(l.ch)\<close>: the UTF-8 encoding of a code point below 256, one byte or two.\<close>

definition string_of_rune :: "char \<Rightarrow> string" where
  "string_of_rune c =
     (let n = (of_char c :: nat) in
      if n < 128 then [c] else [char_of (192 + n div 64), char_of (128 + n mod 64)])"

definition token :: "TokenType \<Rightarrow> string \<Rightarrow> Position \<Rightarrow> Token" where
  "token ty v pos = \<lparr>Tok_Type = ty, Tok_Value = v, Tok_Position = pos\<rparr>"

definition NextToken :: "Lexer \<Rightarrow> Token \<times> Lexer" where
  "NextToken l0 =
     (let l = skipComment (skipWhitespace l0);
          pos = \<lparr>Line = line l, Column = column l\<rparr>;
          c = ch l
      in
      if c = CHR 0x00 then (token TokenEOF '''' pos, l)
      else if c = CHR ''('' \<or> c = CHR '')'' \<or> c = CHR '','' \<or> c = CHR ''.'' \<or> c = CHR '';'' then
        (token TokenPunctuation [c] pos, readChar l)
      else if c = CHR ''*'' \<or> c = CHR ''='' then (token TokenOperator [c] pos, readChar l)
      else if c = CHR ''!'' \<or> c = CHR ''<'' \<or> c = CHR ''>'' then
        (if peekChar l = CHR ''='' then (token TokenOperator [c, CHR ''=''] pos, readChar (readChar l))
         else (token TokenOperator [c] pos, readChar l))
      else if c = CHR 0x27 then
        (case readString l of (s, l') \<Rightarrow> (token TokenString s pos, l'))
      else if isLetter c then
        (case readIdentifier l of
           (ident, l') \<Rightarrow>
             (token (if isKeyword ident then TokenKeyword else TokenIdentifier) ident pos, l'))
      else if isDigit c then
        (case readNumber l of (s, l') \<Rightarrow> (token TokenLiteral s pos, l'))
      else (token TokenOperator (string_of_rune c) pos, readChar l))"

lemma remaining_skipWhitespace: "remaining (skipWhitespace l) \<le> remaining l"
proof (induction l rule: skipWhitespace.induct)
  case (1 l)
  show ?case
  proof (cases "IsSpace (ch l) \<and> ch l \<noteq> CHR 0x0A")
    case True
    with 1 have "remaining (skipWhitespace (readChar l)) \<le> remaining (readChar l)" by simp
    with True show ?thesis
      using remaining_readChar_le [of l] by (subst skipWhitespace.simps) simp
  next
    case False
    then show ?thesis by (subst skipWhitespace.simps) auto
  qed
qed

lemma remaining_skip_to_eol: "remaining (skip_to_eol l) \<le> remaining l"
proof (induction l rule: skip_to_eol.induct)
  case (1 l)
  show ?case
  proof (cases "ch l \<noteq> CHR 0x0A \<and> ch l \<noteq> CHR 0x00")
    case True
    with 1 have "remaining (skip_to_eol (readChar l)) \<le> remaining (readChar l)" by simp
    with True show ?thesis
      using remaining_readChar_le [of l] by (subst skip_to_eol.simps) simp
  next
    case False
    then show ?thesis by (subst skip_to_eol.simps) auto
  qed
qed

lemma remaining_skipComment: "remaining (skipComment l) \<le> remaining l"
  using remaining_skipWhitespace [of "skip_to_eol l"] remaining_skip_to_eol [of l]
  by (simp add: skipComment_def)

lemma remaining_read_identifier_chars: "remaining (read_identifier_chars l) \<le> remaining l"
proof (induction l rule: read_identifier_chars.induct)
  case (1 l)
  show ?case
  proof (cases "isLetter (ch l) \<or> isDigit (ch l) \<or> ch l = CHR ''_''")
    case True
    with 1 have "remaining (read_identifier_chars (readChar l)) \<le> remaining (readChar l)"
      by simp
    with True show ?thesis
      using remaining_readChar_le [of l] by (subst read_identifier_chars.simps) simp
  next
    case False
    then show ?thesis by (subst read_identifier_chars.simps) simp
  qed
qed

lemma remaining_read_number_chars: "remaining (read_number_chars l h) \<le> remaining l"
proof (induction l h rule: read_number_chars.induct)
  case (1 l h)
  show ?case
    using 1 remaining_readChar_le [of l]
    by (subst read_number_chars.simps) (auto intro: order_trans)
qed

lemma remaining_read_string_chars: "remaining (read_string_chars l) \<le> remaining l"
proof (induction l rule: read_string_chars.induct)
  case (1 l)
  show ?case
    using 1 remaining_readChar_le [of l] remaining_readChar_le [of "readChar l"]
    by (subst read_string_chars.simps) (auto intro: order_trans)
qed

lemma isLetter_not_zero: "isLetter c \<Longrightarrow> c \<noteq> CHR 0x00"
  by (auto simp: isLetter_def IsLetter_def)

lemma isDigit_not_zero: "isDigit c \<Longrightarrow> c \<noteq> CHR 0x00"
  by (auto simp: isDigit_def is_digit_def)

lemma isDigit_not_dot: "isDigit c \<Longrightarrow> c \<noteq> CHR ''.''"
  by (auto simp: isDigit_def is_digit_def)

lemma remaining_readIdentifier:
  "isLetter (ch l) \<Longrightarrow> remaining (snd (readIdentifier l)) < remaining l"
  using remaining_read_identifier_chars [of "readChar l"] remaining_readChar [of l]
  by (subst readIdentifier_def, subst read_identifier_chars.simps)
     (auto simp: Let_def dest: isLetter_not_zero)

lemma remaining_readNumber:
  "isDigit (ch l) \<Longrightarrow> remaining (snd (readNumber l)) < remaining l"
  using remaining_read_number_chars [of "readChar l" False] remaining_readChar [of l]
    isDigit_not_zero [of "ch l"] isDigit_not_dot [of "ch l"]
  by (subst readNumber_def, subst read_number_chars.simps) (auto simp: Let_def)

lemma remaining_readString:
  "ch l \<noteq> CHR 0x00 \<Longrightarrow> remaining (snd (readString l)) < remaining l"
  using remaining_read_string_chars [of "readChar l"] remaining_readChar [of l]
    remaining_readChar_le [of "read_string_chars (readChar l)"]
  by (simp add: readString_def Let_def)

lemma remaining_NextToken:
  assumes "NextToken l = (tok, l')" and "Tok_Type tok \<noteq> TokenEOF"
  shows "remaining l' < remaining l"
proof -
  let ?l = "skipComment (skipWhitespace l)"
  have le: "remaining ?l \<le> remaining l"
    using remaining_skipComment [of "skipWhitespace l"] remaining_skipWhitespace [of l] by simp
  from assms have nz: "ch ?l \<noteq> CHR 0x00"
    by (auto simp: NextToken_def Let_def token_def)
  then have one: "remaining (readChar ?l) < remaining ?l" by (rule remaining_readChar)
  have two: "remaining (readChar (readChar ?l)) < remaining ?l"
    using one remaining_readChar_le [of "readChar ?l"] by simp
  have "remaining l' < remaining ?l"
    using assms(1) nz one two remaining_readString [of ?l] remaining_readIdentifier [of ?l]
      remaining_readNumber [of ?l]
    by (auto simp: NextToken_def Let_def split: if_splits prod.splits)
  with le show ?thesis by simp
qed

text \<open>\<open>Tokenize\<close>: the tokens up to the first \<open>TokenEOF\<close>; the error is always nil.\<close>

function tokens_from :: "Lexer \<Rightarrow> Token list" where
  "tokens_from l =
     (case NextToken l of
        (tok, l') \<Rightarrow> if Tok_Type tok = TokenEOF then [] else tok # tokens_from l')"
  by pat_completeness auto
termination
  by (relation "measure remaining") (auto dest: remaining_NextToken [OF sym])

declare tokens_from.simps [simp del]

definition Tokenize :: "string \<Rightarrow> Token list" where
  "Tokenize inp = tokens_from (NewLexer inp)"


section \<open>Equality and ordering of values\<close>

text \<open>
  C6. Values of different tags never compare: both \<open>Equals\<close> and \<open>LessThan\<close> are false.
  \<open>LessThan\<close> is false whenever an operand is Null, and \<open>Equals\<close> with a Null operand is
  true exactly when both operands are Null.
\<close>

theorem C6_cross_tag_and_null:
  "(Type a \<noteq> Type b \<longrightarrow> \<not> Equals a b \<and> \<not> LessThan a b) \<and>
   \<not> LessThan NullValue b \<and> \<not> LessThan a NullValue \<and>
   Equals NullValue b = (b = NullValue) \<and> Equals a NullValue = (a = NullValue)"
  by (cases a; cases b) simp_all

theorem C6_cross_tag_and_null_witness:
  "Type (IntegerValue 1) \<noteq> Type (TextValue ''1'') \<and>
   \<not> Equals (IntegerValue 1) (TextValue ''1'') \<and> \<not> LessThan (IntegerValue 1) (TextValue ''1'') \<and>
   Equals NullValue NullValue"
  using C6_cross_tag_and_null [of "IntegerValue 1" "TextValue ''1''"]
    C6_cross_tag_and_null [of NullValue NullValue]
  by simp

text \<open>The claim as stated fails: Null equals Null.\<close>

theorem C6_null_equals_null_counterexample:
  "\<not> (\<not> Equals NullValue NullValue \<and> \<not> LessThan NullValue NullValue)"
  by simp

text \<open>
  C10. Within one of the tags Integer, Text and Boolean, and among Float values that are
  not NaN, \<open>LessThan\<close> is a strict total order: irreflexive, transitive, and of two values
  that are not \<open>Equals\<close> exactly one is less than the other. False is less than true.
  Irreflexivity and transitivity hold for all values. A Float NaN is neither equal to nor
  less than nor greater than any value, in particular any Float: with \<open>b\<close> a NaN, neither
  \<open>Equals\<close> nor \<open>LessThan\<close> holds between \<open>b\<close> and any \<open>a\<close>, in either direction.
\<close>

theorem C10_less_than_strict_total_order:
  "\<not> LessThan a a \<and>
   (LessThan a b \<and> LessThan b c \<longrightarrow> LessThan a c) \<and>
   (Type a = Type b \<and> Type a \<noteq> TypeNull \<and> a \<noteq> FloatValue FNaN \<and> b \<noteq> FloatValue FNaN \<and>
      \<not> Equals a b \<longrightarrow> LessThan a b \<noteq> LessThan b a) \<and>
   LessThan (BooleanValue False) (BooleanValue True) \<and>
   \<not> LessThan (BooleanValue True) (BooleanValue False) \<and>
   (b = FloatValue FNaN \<longrightarrow>
      \<not> Equals a b \<and> \<not> Equals b a \<and> \<not> LessThan a b \<and> \<not> LessThan b a)"
proof -
  have irrefl: "\<not> LessThan a a"
    by (cases a) (simp_all add: float_lt_irrefl)
  have trans: "LessThan a b \<and> LessThan b c \<longrightarrow> LessThan a c"
    by (cases a; cases b; cases c) (auto intro: float_lt_trans simp: word_sless_alt)
  have total: "Type a = Type b \<and> Type a \<noteq> TypeNull \<and> a \<noteq> FloatValue FNaN \<and>
      b \<noteq> FloatValue FNaN \<and> \<not> Equals a b \<longrightarrow> LessThan a b \<noteq> LessThan b a"
    by (cases a; cases b) (auto dest: float_trichotomy sless_trichotomy)
  have nan: "b = FloatValue FNaN \<longrightarrow>
      \<not> Equals a b \<and> \<not> Equals b a \<and> \<not> LessThan a b \<and> \<not> LessThan b a"
    by (cases a) (simp_all add: float_eq_def float_lt_def)
  show ?thesis using irrefl trans total nan by simp
qed

theorem C10_less_than_strict_total_order_witness:
  "LessThan (IntegerValue 1) (IntegerValue 2) \<and> LessThan (IntegerValue 2) (IntegerValue 3) \<and>
   LessThan (IntegerValue 1) (IntegerValue 3) \<and>
   \<not> Equals (TextValue ''a'') (TextValue ''b'') \<and>
   LessThan (TextValue ''a'') (TextValue ''b'') \<noteq> LessThan (TextValue ''b'') (TextValue ''a'') \<and>
   \<not> Equals (FloatValue FNaN) (FloatValue FNaN) \<and>
   \<not> LessThan (FloatValue FPosInf) (FloatValue FNaN) \<and>
   \<not> LessThan (FloatValue FNaN) (FloatValue FPosInf)"
  using C10_less_than_strict_total_order [of "IntegerValue 1" "IntegerValue 2" "IntegerValue 3"]
    C10_less_than_strict_total_order [of "TextValue ''a''" "TextValue ''b''" "TextValue ''b''"]
    C10_less_than_strict_total_order [of "FloatValue FNaN" "FloatValue FNaN" "FloatValue FNaN"]
    C10_less_than_strict_total_order [of "FloatValue FPosInf" "FloatValue FNaN" "FloatValue FNaN"]
  by (simp add: word_sless_alt)

text \<open>
  The claim as stated fails on Float: a NaN and 1 are not equal, and neither is less than
  the other.
\<close>

theorem C10_float_nan_counterexample:
  "\<not> Equals (FloatValue FNaN) (FloatValue (FFin 1)) \<and>
   \<not> LessThan (FloatValue FNaN) (FloatValue (FFin 1)) \<and>
   \<not> LessThan (FloatValue (FFin 1)) (FloatValue FNaN)"
  by (simp add: float_eq_def float_lt_def)


section \<open>Lookup in the B-tree\<close>

lemma lookup_after_two_inserts:
  "(case insert_keys NewBTree [1, 2] of
      None \<Rightarrow> None
    | Some bt \<Rightarrow> Some (bt_root bt, BTree_Lookup bt (IntegerValue 1), BTree_Lookup bt (IntegerValue 2))) =
   Some (Some (Node [IntegerValue 1, IntegerValue 2] [] True [1, 2]), Some ([1], True), Some ([], False))"
  by code_simp

lemma scenario_1_to_100:
  "(case insert_keys NewBTree [1..<101] of
      None \<Rightarrow> None
    | Some bt \<Rightarrow>
        (case delete_keys bt (map (\<lambda>n. 2 * n) [1..<51]) of
           None \<Rightarrow> None
         | Some bt' \<Rightarrow>
             Some (BTree_ScanAll bt', BTree_Lookup bt' (IntegerValue 50),
                   BTree_Lookup bt' (IntegerValue 49)))) =
   Some (None, Some ([], False), Some ([], False))"
  by code_simp

text \<open>
  C1. \<open>Lookup\<close> does not find every key that is present. After \<open>Insert(1, 1)\<close> and
  \<open>Insert(2, 2)\<close> into an empty tree the root is the leaf with the keys 1, 2 and the payloads
  1, 2; \<open>Lookup(1)\<close> returns the payload 1, and \<open>Lookup(2)\<close> reports that the key is absent: the
  loop of \<open>lookup\<close> walks past the keys the target is less than, stops at the key 1 and, on a
  leaf, gives up. After inserting the keys 1..100 and deleting every even key, \<open>ScanAll\<close>
  panics (an internal node holds no payloads, and \<open>scan\<close> indexes them), \<open>Lookup(50)\<close> fails
  and \<open>Lookup(49)\<close> fails too.
\<close>

theorem C1_lookup_misses_present_key:
  "(case insert_keys NewBTree [1, 2] of
      None \<Rightarrow> None
    | Some bt \<Rightarrow> Some (bt_root bt, BTree_Lookup bt (IntegerValue 1), BTree_Lookup bt (IntegerValue 2))) =
   Some (Some (Node [IntegerValue 1, IntegerValue 2] [] True [1, 2]), Some ([1], True), Some ([], False)) \<and>
   (case insert_keys NewBTree [1..<101] of
      None \<Rightarrow> None
    | Some bt \<Rightarrow>
        (case delete_keys bt (map (\<lambda>n. 2 * n) [1..<51]) of
           None \<Rightarrow> None
         | Some bt' \<Rightarrow>
             Some (BTree_ScanAll bt', BTree_Lookup bt' (IntegerValue 50),
                   BTree_Lookup bt' (IntegerValue 49)))) =
   Some (None, Some ([], False), Some ([], False))"
  using lookup_after_two_inserts scenario_1_to_100 by (rule conjI)


section \<open>The row id sequence and the primary keys\<close>











lemma Row_Clone_id [simp]: "Row_Clone r = r"
  by (simp add: Row_Clone_def map_idI)















section \<open>Statements through the executor\<close>

text \<open>
  C4. A column with a default that is left out of the column list of an \<open>INSERT\<close> is stored
  as Null, not as its default. After

  \<^item> \<open>CREATE TABLE t (id INTEGER PRIMARY KEY, name TEXT NOT NULL, status TEXT DEFAULT 'active')\<close>
  \<^item> \<open>INSERT INTO t (name) VALUES ('a')\<close>

  the column \<open>status\<close> has the default \<open>'active'\<close> and the stored row is \<open>(1, 'a', NULL)\<close>:
  \<open>executeInsert\<close> builds a row as long as the schema, with Null in every slot the column
  list leaves out, and \<open>Table.Insert\<close> fills defaults only into a row shorter than the schema.
\<close>

theorem C4_omitted_column_stored_as_null:
  "(case run fl NewDatabase
           [create_table_t, insert_into_t [''name''] [[LiteralExpression ''a'']]] of
      None \<Rightarrow> None
    | Some (db, rs) \<Rightarrow>
        map_option (\<lambda>t. (map Default (Columns (Schema t)), Rows t)) (tables db ''t'')) =
   Some ([None, None, Some (TextValue ''active'')], [[IntegerValue 1, TextValue ''a'', NullValue]])"
  by code_simp

lemma where_integer_literal:
  "buildPredicate fl (Some (LiteralExpression ''1'')) table row = False \<and>
   evaluateExpressionForRow fl (LiteralExpression ''1'') (Some table) (Some row) =
     Some (Inr (IntegerValue 1)) \<and>
   getValueAsBool (IntegerValue 1)"
  by code_simp

lemma where_integer_statements:
  "outcome (run fl NewDatabase
     [create_table_t,
      insert_into_t [''name''] [[LiteralExpression ''a''], [LiteralExpression ''b'']],
      delete_from_t (Some (LiteralExpression ''1'')),
      update_t ''name'' (LiteralExpression ''z'') (Some (LiteralExpression ''1'')),
      select_from_t (Some (LiteralExpression ''1'')) None None]) =
   Some ([Inr \<lparr>Res_Columns = [], Res_Rows = [], RowsAffected = 0, Message = ''Table t created''\<rparr>,
          Inr \<lparr>Res_Columns = [], Res_Rows = [], RowsAffected = 2, Message = ''2 row(s) inserted''\<rparr>,
          Inr \<lparr>Res_Columns = [], Res_Rows = [], RowsAffected = 0, Message = ''0 row(s) deleted''\<rparr>,
          Inr \<lparr>Res_Columns = [], Res_Rows = [], RowsAffected = 0, Message = ''0 row(s) updated''\<rparr>,
          Inr \<lparr>Res_Columns = [''id'', ''name'', ''status''],
               Res_Rows = [[''1'', ''a'', ''NULL''], [''2'', ''b'', ''NULL'']],
               RowsAffected = 0, Message = ''''\<rparr>],
         Some [[IntegerValue 1, TextValue ''a'', NullValue],
               [IntegerValue 2, TextValue ''b'', NullValue]])"
  by code_simp

text \<open>
  C5. The predicate that \<open>UPDATE\<close> and \<open>DELETE\<close> compile from a \<open>WHERE\<close> expression does not
  follow the truthiness coercion. The expression \<open>1\<close> evaluates to the Integer 1, which is
  truthy, and the predicate built from it rejects every row of every table: \<open>buildPredicate\<close>
  accepts a row only when the value is a Boolean true. On a table with two rows,
  \<open>DELETE FROM t WHERE 1\<close> deletes no row and \<open>UPDATE t SET name = 'z' WHERE 1\<close> updates no
  row, while \<open>SELECT * FROM t WHERE 1\<close>, which filters with the coercion, returns both rows.
\<close>

theorem C5_where_integer_rejects_every_row:
  "buildPredicate fl (Some (LiteralExpression ''1'')) table row = False \<and>
   evaluateExpressionForRow fl (LiteralExpression ''1'') (Some table) (Some row) =
     Some (Inr (IntegerValue 1)) \<and>
   getValueAsBool (IntegerValue 1) \<and>
   outcome (run fl NewDatabase
     [create_table_t,
      insert_into_t [''name''] [[LiteralExpression ''a''], [LiteralExpression ''b'']],
      delete_from_t (Some (LiteralExpression ''1'')),
      update_t ''name'' (LiteralExpression ''z'') (Some (LiteralExpression ''1'')),
      select_from_t (Some (LiteralExpression ''1'')) None None]) =
   Some ([Inr \<lparr>Res_Columns = [], Res_Rows = [], RowsAffected = 0, Message = ''Table t created''\<rparr>,
          Inr \<lparr>Res_Columns = [], Res_Rows = [], RowsAffected = 2, Message = ''2 row(s) inserted''\<rparr>,
          Inr \<lparr>Res_Columns = [], Res_Rows = [], RowsAffected = 0, Message = ''0 row(s) deleted''\<rparr>,
          Inr \<lparr>Res_Columns = [], Res_Rows = [], RowsAffected = 0, Message = ''0 row(s) updated''\<rparr>,
          Inr \<lparr>Res_Columns = [''id'', ''name'', ''status''],
               Res_Rows = [[''1'', ''a'', ''NULL''], [''2'', ''b'', ''NULL'']],
               RowsAffected = 0, Message = ''''\<rparr>],
         Some [[IntegerValue 1, TextValue ''a'', NullValue],
               [IntegerValue 2, TextValue ''b'', NullValue]])"
  using where_integer_literal [of fl table row] where_integer_statements [of fl] by simp

lemma offset_without_limit: "limit_offset None (Some off) rows = Some rows"
  by (simp add: limit_offset_def)

lemma offset_statements:
  "outcome (run fl NewDatabase
     [create_table_t,
      insert_into_t [''name''] [[LiteralExpression ''a''], [LiteralExpression ''b'']],
      select_from_t None None (Some 5),
      select_from_t None None (Some 1),
      select_from_t None (Some 1) (Some 5),
      select_from_t None (Some 1) (Some 1)]) =
   Some ([Inr \<lparr>Res_Columns = [], Res_Rows = [], RowsAffected = 0, Message = ''Table t created''\<rparr>,
          Inr \<lparr>Res_Columns = [], Res_Rows = [], RowsAffected = 2, Message = ''2 row(s) inserted''\<rparr>,
          Inr \<lparr>Res_Columns = [''id'', ''name'', ''status''],
               Res_Rows = [[''1'', ''a'', ''NULL''], [''2'', ''b'', ''NULL'']],
               RowsAffected = 0, Message = ''''\<rparr>,
          Inr \<lparr>Res_Columns = [''id'', ''name'', ''status''],
               Res_Rows = [[''1'', ''a'', ''NULL''], [''2'', ''b'', ''NULL'']],
               RowsAffected = 0, Message = ''''\<rparr>,
          Inr \<lparr>Res_Columns = [''id'', ''name'', ''status''], Res_Rows = [],
               RowsAffected = 0, Message = ''''\<rparr>,
          Inr \<lparr>Res_Columns = [''id'', ''name'', ''status''], Res_Rows = [[''2'', ''b'', ''NULL'']],
               RowsAffected = 0, Message = ''''\<rparr>],
         Some [[IntegerValue 1, TextValue ''a'', NullValue],
               [IntegerValue 2, TextValue ''b'', NullValue]])"
  by code_simp

text \<open>
  C7. An \<open>OFFSET\<close> without a \<open>LIMIT\<close> is ignored: step 5 of \<open>executeSelect\<close> slices the
  rendered rows only when the statement has a \<open>LIMIT\<close>, and reads the \<open>OFFSET\<close> inside that
  branch. On a table with two rows, \<open>SELECT * FROM t OFFSET 5\<close> and
  \<open>SELECT * FROM t OFFSET 1\<close> return both rows; with a \<open>LIMIT\<close>, \<open>LIMIT 1 OFFSET 5\<close> returns
  no row and \<open>LIMIT 1 OFFSET 1\<close> the second row.
\<close>

theorem C7_offset_without_limit_is_ignored:
  "limit_offset None (Some off) rows = Some rows \<and>
   outcome (run fl NewDatabase
     [create_table_t,
      insert_into_t [''name''] [[LiteralExpression ''a''], [LiteralExpression ''b'']],
      select_from_t None None (Some 5),
      select_from_t None None (Some 1),
      select_from_t None (Some 1) (Some 5),
      select_from_t None (Some 1) (Some 1)]) =
   Some ([Inr \<lparr>Res_Columns = [], Res_Rows = [], RowsAffected = 0, Message = ''Table t created''\<rparr>,
          Inr \<lparr>Res_Columns = [], Res_Rows = [], RowsAffected = 2, Message = ''2 row(s) inserted''\<rparr>,
          Inr \<lparr>Res_Columns = [''id'', ''name'', ''status''],
               Res_Rows = [[''1'', ''a'', ''NULL''], [''2'', ''b'', ''NULL'']],
               RowsAffected = 0, Message = ''''\<rparr>,
          Inr \<lparr>Res_Columns = [''id'', ''name'', ''status''],
               Res_Rows = [[''1'', ''a'', ''NULL''], [''2'', ''b'', ''NULL'']],
               RowsAffected = 0, Message = ''''\<rparr>,
          Inr \<lparr>Res_Columns = [''id'', ''name'', ''status''], Res_Rows = [],
               RowsAffected = 0, Message = ''''\<rparr>,
          Inr \<lparr>Res_Columns = [''id'', ''name'', ''status''], Res_Rows = [[''2'', ''b'', ''NULL'']],
               RowsAffected = 0, Message = ''''\<rparr>],
         Some [[IntegerValue 1, TextValue ''a'', NullValue],
               [IntegerValue 2, TextValue ''b'', NullValue]])"
  using offset_without_limit [of off rows] offset_statements [of fl] by simp


section \<open>The token stream\<close>

lemma tokenize_newline:
  "Tokenize [CHR 0x0A] =
   [\<lparr>Tok_Type = TokenOperator, Tok_Value = [CHR 0x0A],
      Tok_Position = \<lparr>Line = 2, Column = 1\<rparr>\<rparr>]"
  by code_simp

lemma tokenize_two_lines:
  "map (\<lambda>tok. (Tok_Type tok, Tok_Value tok)) (Tokenize ''SELECT *\<newline>FROM t'') =
   [(TokenKeyword, ''SELECT''), (TokenOperator, ''*''), (TokenOperator, [CHR 0x0A]),
    (TokenKeyword, ''FROM''), (TokenIdentifier, ''t'')]"
  by code_simp

lemma tokenize_comment:
  "map (\<lambda>tok. (Tok_Type tok, Tok_Value tok)) (Tokenize ''SELECT 1 -- one\<newline>FROM t'') =
   [(TokenKeyword, ''SELECT''), (TokenLiteral, ''1''), (TokenOperator, [CHR 0x0A]),
    (TokenKeyword, ''FROM''), (TokenIdentifier, ''t'')]"
  by code_simp

lemma tokenize_spaces:
  "map (\<lambda>tok. (Tok_Type tok, Tok_Value tok)) (Tokenize ''SELECT  * FROM t -- all'') =
   [(TokenKeyword, ''SELECT''), (TokenOperator, ''*''), (TokenKeyword, ''FROM''),
    (TokenIdentifier, ''t'')]"
  by code_simp

text \<open>
  C8. A newline is not skipped: the loop of \<open>skipWhitespace\<close> stops at \<open>'\n'\<close>, and
  \<open>NextToken\<close> then makes an operator token of it. The input that is one newline gives one
  token; \<open>SELECT *\<close>, newline, \<open>FROM t\<close> gives five tokens, the third one the newline; a
  comment ends before the newline that closes it, which becomes a token as well. Spaces, and
  a comment that the input ends in, leave no token.
\<close>

theorem C8_newline_is_a_token:
  "Tokenize [CHR 0x0A] =
   [\<lparr>Tok_Type = TokenOperator, Tok_Value = [CHR 0x0A],
      Tok_Position = \<lparr>Line = 2, Column = 1\<rparr>\<rparr>] \<and>
   map (\<lambda>tok. (Tok_Type tok, Tok_Value tok)) (Tokenize ''SELECT *\<newline>FROM t'') =
   [(TokenKeyword, ''SELECT''), (TokenOperator, ''*''), (TokenOperator, [CHR 0x0A]),
    (TokenKeyword, ''FROM''), (TokenIdentifier, ''t'')] \<and>
   map (\<lambda>tok. (Tok_Type tok, Tok_Value tok)) (Tokenize ''SELECT 1 -- one\<newline>FROM t'') =
   [(TokenKeyword, ''SELECT''), (TokenLiteral, ''1''), (TokenOperator, [CHR 0x0A]),
    (TokenKeyword, ''FROM''), (TokenIdentifier, ''t'')] \<and>
   map (\<lambda>tok. (Tok_Type tok, Tok_Value tok)) (Tokenize ''SELECT  * FROM t -- all'') =
   [(TokenKeyword, ''SELECT''), (TokenOperator, ''*''), (TokenKeyword, ''FROM''),
    (TokenIdentifier, ''t'')]"
  using tokenize_newline tokenize_two_lines tokenize_comment tokenize_spaces by (intro conjI)


end
